theory Spec2Isabelle
  imports Complex_Main "HOL-Library.Word"
begin

unbundle bit_operations_syntax

section \<open>The Si4707 command layer (RPiNWR/Si4707/commands.py)\<close>

text \<open>
  A shallow embedding of the command classes of \<^verbatim>\<open>commands.py\<close>. A command object is a
  record, the controller (\<^verbatim>\<open>radio\<close>) is a record that is passed in and returned updated,
  an exception is the \<open>Inl\<close> of a sum, and a loop is a recursive function.

  The controller, the bus, the clock and the \<^verbatim>\<open>SAME\<close> module are not part of
  \<^verbatim>\<open>commands.py\<close>. They are taken as an environment \<open>E\<close> of answers (what the
  bus returns to the k-th read, what \<^verbatim>\<open>time.time()\<close> returns at its k-th call, ...) and
  as traces kept in the controller record (what was written to the bus, which events
  were fired, what the decoder was called with), the way a test double records its calls.
\<close>

subsection \<open>Values, errors, events\<close>

type_synonym byte = "8 word"

text \<open>A reception: the text of one header repetition and the confidence of each symbol.\<close>
type_synonym reception = "string \<times> nat list"

text \<open>What a \<^verbatim>\<open>do_command0\<close> returns (Python values).\<close>
datatype pyval =
    PyNone
  | PySelf                \<comment> \<open>the command object itself (\<^verbatim>\<open>return self\<close>)\<close>
  | PyStr string
  | PyInt int
  | PyFloat real
  | PyTuple "pyval list"
  | PyBytes "byte list"

text \<open>
  Every one of these is a \<^verbatim>\<open>ValueError\<close> in the source, except \<open>StructError\<close>
  (\<^verbatim>\<open>struct.error\<close>) and \<open>TypeError\<close>; the constructor records which \<^verbatim>\<open>raise\<close> it was and the
  values its message is formatted from.
\<close>
datatype error =
    PoweredDown string          \<comment> \<open>\<^verbatim>\<open>ValueError("Attempted %s when powered down" % type(self).__name__)\<close>\<close>
  | FrequencyOutOfRange real    \<comment> \<open>\<^verbatim>\<open>ValueError("%.2f MHz out of range" % frequency)\<close>\<close>
  | FrequencyDidntStick int nat \<comment> \<open>\<^verbatim>\<open>ValueError("Frequency didn't stick: requested %02X != %02X" % ...)\<close>\<close>
  | BadFunction nat             \<comment> \<open>\<^verbatim>\<open>ValueError("function 0x%02X" % function)\<close>\<close>
  | BadOpmode nat               \<comment> \<open>\<^verbatim>\<open>ValueError("opmode 0x%02X" % opmode)\<close>\<close>
  | StructError                 \<comment> \<open>\<^verbatim>\<open>struct.pack\<close> of a value that does not fit its field\<close>
  | TypeError                   \<comment> \<open>\<^verbatim>\<open>None\<close> where a number is needed\<close>

text \<open>
  The events of \<^verbatim>\<open>RPiNWR.Si4707.events\<close> that the commands fire. \<open>'m\<close> is the type of
  what \<^verbatim>\<open>SAME.average_message\<close> returns; a \<^verbatim>\<open>SAME.SAMEMessage\<close> is represented by the
  averaged message it is built from.
\<close>
datatype 'm event =
    RadioPowerEvent bool
  | ReadyToTuneEvent
  | SAMEMessageReceivedEvent 'm
  | InvalidSAMEMessageReceivedEvent "reception list"
  | EndOfMessage
  | SAMEHeaderReceived "reception list"

text \<open>The calls made on \<^verbatim>\<open>radio.hardware_io\<close> and \<^verbatim>\<open>radio.wait_for_clear_to_send\<close>.\<close>
datatype bus_op =
    Write8 nat nat
  | WriteList nat "nat list"
  | ReadList nat nat
  | WaitCTS

text \<open>
  \<^verbatim>\<open>radio.tune_after\<close> is assigned \<^verbatim>\<open>time.time() + 0.5\<close> or \<^verbatim>\<open>float("-inf")\<close>;
  \<^verbatim>\<open>radio.same_timeout\<close> is assigned \<^verbatim>\<open>float("inf")\<close>, \<^verbatim>\<open>0\<close> or
  \<^verbatim>\<open>time.time() + 6\<close>. Times are real numbers (the rounding of binary floating point is
  not modelled).
\<close>
datatype tune_deadline = NoWait | After real
datatype same_deadline = At real | Never

subsection \<open>The environment and the controller\<close>

record 'm env =
  hw :: "nat \<Rightarrow> nat \<Rightarrow> byte"
    \<comment> \<open>byte \<open>j\<close> of what the bus answers to the \<open>k\<close>-th \<^verbatim>\<open>readList\<close>\<close>
  clock :: "nat \<Rightarrow> real"
    \<comment> \<open>what the \<open>k\<close>-th call of \<^verbatim>\<open>time.time()\<close> returns\<close>
  seek_tune_complete :: "nat \<Rightarrow> bool"
    \<comment> \<open>what the \<open>k\<close>-th \<^verbatim>\<open>radio.check_interrupts().is_seek_tune_complete()\<close> returns\<close>
  clear_to_send :: pyval
    \<comment> \<open>what \<^verbatim>\<open>radio.wait_for_clear_to_send()\<close> returns\<close>
  average_message :: "reception list \<Rightarrow> 'm"
    \<comment> \<open>\<^verbatim>\<open>SAME.average_message\<close>\<close>
  SAMEMessage_ok :: "'m \<Rightarrow> bool"
    \<comment> \<open>whether \<^verbatim>\<open>SAME.SAMEMessage(*avg_message)\<close> returns; otherwise it raises \<^verbatim>\<open>ValueError\<close>\<close>

record 'm radio =
  radio_power :: bool
  tune_after :: tune_deadline
  same_timeout :: same_deadline
  same_messages :: "reception list"
  last_EOM :: real
  tone_start :: "real option"
  revision :: "byte list option"
  bus_log :: "bus_op list"        \<comment> \<open>trace: the bus calls so far\<close>
  reads :: nat                    \<comment> \<open>how many \<^verbatim>\<open>readList\<close> calls so far\<close>
  ticks :: nat                    \<comment> \<open>how many \<^verbatim>\<open>time.time()\<close> calls so far\<close>
  polls :: nat                    \<comment> \<open>how many \<^verbatim>\<open>check_interrupts\<close> calls so far\<close>
  fired :: "'m event list"        \<comment> \<open>trace: \<^verbatim>\<open>radio._fire_event\<close>\<close>
  delayed :: "('m event \<times> real) list"  \<comment> \<open>trace: \<^verbatim>\<open>radio._delay_event\<close>\<close>
  decode_calls :: "reception list list" \<comment> \<open>trace: the arguments of \<^verbatim>\<open>SAME.average_message\<close>\<close>
  future_calls :: "(nat \<times> (error + pyval)) list"
    \<comment> \<open>trace: the futures resolved (\<open>Inr\<close>) or rejected (\<open>Inl\<close>), by handle\<close>

definition time_time :: "'m env \<Rightarrow> 'm radio \<Rightarrow> real \<times> 'm radio" where
  "time_time E r = (clock E (ticks r), r\<lparr>ticks := Suc (ticks r)\<rparr>)"

definition fire_event :: "'m event \<Rightarrow> 'm radio \<Rightarrow> 'm radio" where
  "fire_event ev r = r\<lparr>fired := fired r @ [ev]\<rparr>"

definition delay_event :: "'m event \<Rightarrow> real \<Rightarrow> 'm radio \<Rightarrow> 'm radio" where
  "delay_event ev t r = r\<lparr>delayed := delayed r @ [(ev, t)]\<rparr>"

definition write8 :: "nat \<Rightarrow> nat \<Rightarrow> 'm radio \<Rightarrow> 'm radio" where
  "write8 reg v r = r\<lparr>bus_log := bus_log r @ [Write8 reg v]\<rparr>"

definition writeList :: "nat \<Rightarrow> nat list \<Rightarrow> 'm radio \<Rightarrow> 'm radio" where
  "writeList reg payload r = r\<lparr>bus_log := bus_log r @ [WriteList reg payload]\<rparr>"

text \<open>\<^verbatim>\<open>readList(reg, n)\<close> returns \<open>n\<close> bytes: that much of the bus's contract is built in.\<close>
definition readList :: "'m env \<Rightarrow> nat \<Rightarrow> nat \<Rightarrow> 'm radio \<Rightarrow> byte list \<times> 'm radio" where
  "readList E reg n r =
     (map (hw E (reads r)) [0..<n],
      r\<lparr>bus_log := bus_log r @ [ReadList reg n], reads := Suc (reads r)\<rparr>)"

definition wait_for_clear_to_send :: "'m env \<Rightarrow> 'm radio \<Rightarrow> pyval \<times> 'm radio" where
  "wait_for_clear_to_send E r = (clear_to_send E, r\<lparr>bus_log := bus_log r @ [WaitCTS]\<rparr>)"

definition check_interrupts :: "'m env \<Rightarrow> 'm radio \<Rightarrow> bool \<times> 'm radio" where
  "check_interrupts E r = (seek_tune_complete E (polls r), r\<lparr>polls := Suc (polls r)\<rparr>)"

definition future_result :: "nat \<Rightarrow> pyval \<Rightarrow> 'm radio \<Rightarrow> 'm radio" where
  "future_result h v r = r\<lparr>future_calls := future_calls r @ [(h, Inr v)]\<rparr>"

definition future_exception :: "nat \<Rightarrow> error \<Rightarrow> 'm radio \<Rightarrow> 'm radio" where
  "future_exception h e r = r\<lparr>future_calls := future_calls r @ [(h, Inl e)]\<rparr>"

subsection \<open>Command\<close>

record Command =
  cls :: string                   \<comment> \<open>\<^verbatim>\<open>type(self).__name__\<close>\<close>
  opcode :: nat                   \<comment> \<open>\<^verbatim>\<open>self.value\<close>\<close>
  future :: "nat option"          \<comment> \<open>the handle of the attached future, if any\<close>
  exception :: "error option"
  result :: "pyval option"
  time_complete :: "real option"

text \<open>
  \<^verbatim>\<open>Command.do_command\<close>, with the subclass's \<^verbatim>\<open>do_command0\<close> as a parameter. A
  \<^verbatim>\<open>do_command0\<close> that never returns (\<open>None\<close>) leaves \<^verbatim>\<open>do_command\<close> not returning.
  The method returns nothing: the outcome is \<open>Inr ()\<close>, or \<open>Inl e\<close> when it raises.
\<close>
definition Command_do_command ::
  "'m env \<Rightarrow> ('z Command_scheme \<Rightarrow> 'm radio \<Rightarrow> ((error + pyval) \<times> 'z Command_scheme \<times> 'm radio) option)
   \<Rightarrow> 'z Command_scheme \<Rightarrow> 'm radio \<Rightarrow> ((error + unit) \<times> 'z Command_scheme \<times> 'm radio) option" where
  "Command_do_command E do_command0 self r =
     (case do_command0 self r of
        None \<Rightarrow> None
      | Some (Inr res, self1, r1) \<Rightarrow>
          let res' = (if res = PySelf then PyStr ''self'' else res);
              self2 = self1\<lparr>result := Some res'\<rparr>;
              r2 = (case future self2 of Some h \<Rightarrow> future_result h res' r1 | None \<Rightarrow> r1);
              (t, r3) = time_time E r2
          in Some (Inr (), self2\<lparr>future := None, time_complete := Some t\<rparr>, r3)
      | Some (Inl e, self1, r1) \<Rightarrow>
          let self2 = self1\<lparr>exception := Some e\<rparr>;
              r2 = (case future self2 of Some h \<Rightarrow> future_exception h e r1 | None \<Rightarrow> r1);
              (t, r3) = time_time E r2
          in Some (if future self2 = None then Inl e else Inr (),
                   self2\<lparr>future := None, time_complete := Some t\<rparr>, r3))"

text \<open>\<^verbatim>\<open>CommandRequiringPowerUp.do_command\<close>: the check comes before \<^verbatim>\<open>Command.do_command\<close>.\<close>
definition CommandRequiringPowerUp_do_command ::
  "'m env \<Rightarrow> ('z Command_scheme \<Rightarrow> 'm radio \<Rightarrow> ((error + pyval) \<times> 'z Command_scheme \<times> 'm radio) option)
   \<Rightarrow> 'z Command_scheme \<Rightarrow> 'm radio \<Rightarrow> ((error + unit) \<times> 'z Command_scheme \<times> 'm radio) option" where
  "CommandRequiringPowerUp_do_command E do_command0 self r =
     (if \<not> radio_power r then Some (Inl (PoweredDown (cls self)), self, r)
      else Command_do_command E do_command0 self r)"

text \<open>\<^verbatim>\<open>Command.do_command0\<close>: a command with no arguments.\<close>
definition Command_do_command0 ::
  "'m env \<Rightarrow> 'z Command_scheme \<Rightarrow> 'm radio \<Rightarrow> (error + pyval) \<times> 'z Command_scheme \<times> 'm radio" where
  "Command_do_command0 E self r =
     (let r1 = write8 (opcode self) 0 r;
          (cts, r2) = wait_for_clear_to_send E r1
      in (Inr cts, self, r2))"

subsection \<open>SameInterruptCheck\<close>

text \<open>The dictionary that \<^verbatim>\<open>__get_status\<close> returns.\<close>
record same_status =
  EOMDET :: bool
  SOMDET :: bool
  PREDET :: bool
  HDRRDY :: bool
  STATE :: byte
  MSGLEN :: nat
  CONFIDENCE :: "nat list"
  MESSAGE :: "byte list"

record SameInterruptCheck = Command +
  status :: "same_status option"
  intack :: bool
  clearbuf :: bool
  dispatch_message :: bool

text \<open>\<^verbatim>\<open>SameInterruptCheck.__init__\<close>\<close>
definition SameInterruptCheck_init :: "bool \<Rightarrow> bool \<Rightarrow> bool \<Rightarrow> SameInterruptCheck" where
  "SameInterruptCheck_init intack_arg clearbuf_arg dispatch_arg =
     \<lparr>cls = ''SameInterruptCheck'', opcode = 0x54, future = None, exception = None,
      result = None, time_complete = None,
      status = None, intack = intack_arg, clearbuf = (clearbuf_arg \<or> dispatch_arg),
      dispatch_message = dispatch_arg\<rparr>"

text \<open>
  The first payload byte of the request, \<^verbatim>\<open>clearbuf < 1 | intack\<close>. In Python \<open>|\<close> binds
  tighter than \<open><\<close>, so this is \<^verbatim>\<open>clearbuf < (1 | intack)\<close>, a bool, which the bus sends
  as 1 or 0.
\<close>
definition get_status_arg :: "bool \<Rightarrow> bool \<Rightarrow> nat" where
  "get_status_arg clearbuf_arg intack_arg =
     of_bool ((of_bool clearbuf_arg :: nat) < (1 OR of_bool intack_arg))"

text \<open>
  The \<^verbatim>\<open>for\<close> loop of \<^verbatim>\<open>__get_status\<close>:
  \<^verbatim>\<open>confidence[i] = data[int((7 - i) / 4) + 4] >> (i % 4 * 2) & 0x3\<close>.
\<close>
definition decode_confidence :: "byte list \<Rightarrow> nat list" where
  "decode_confidence data =
     fold (\<lambda>i confidence.
             confidence[i := unat (drop_bit (i mod 4 * 2) (data ! ((7 - i) div 4 + 4)) AND 3)])
       [0..<8] (replicate 8 0)"

text \<open>The decoding of the 14 bytes read, the rest of \<^verbatim>\<open>__get_status\<close>.\<close>
definition status_of :: "byte list \<Rightarrow> same_status" where
  "status_of data =
     \<lparr>EOMDET = (data ! 1 AND 8 \<noteq> 0),
      SOMDET = (data ! 1 AND 4 \<noteq> 0),
      PREDET = (data ! 1 AND 2 \<noteq> 0),
      HDRRDY = (data ! 1 AND 1 \<noteq> 0),
      STATE = data ! 2,
      MSGLEN = unat (data ! 3),
      CONFIDENCE = decode_confidence data,
      MESSAGE = take 8 (drop 6 data)\<rparr>"

text \<open>\<^verbatim>\<open>SameInterruptCheck.__get_status(radio, readaddr, clearbuf, intack)\<close>\<close>
definition get_status ::
  "'m env \<Rightarrow> SameInterruptCheck \<Rightarrow> nat \<Rightarrow> bool \<Rightarrow> bool \<Rightarrow> 'm radio \<Rightarrow> same_status \<times> 'm radio" where
  "get_status E self readaddr clearbuf_arg intack_arg r =
     (let r1 = writeList (opcode self) [get_status_arg clearbuf_arg intack_arg, readaddr] r;
          (cts, r2) = wait_for_clear_to_send E r1;
          (data, r3) = readList E 0 14 r2
      in (status_of data, r3))"

lemma length_MESSAGE_get_status:
  "length (MESSAGE (fst (get_status E self readaddr cb ia r))) = 8"
  by (simp add: get_status_def readList_def wait_for_clear_to_send_def status_of_def
      Let_def split: prod.splits)

text \<open>
  The \<^verbatim>\<open>while len(msg) < msg_len\<close> loop of the header-ready branch: each turn reads the
  next chunk at \<^verbatim>\<open>readaddr=len(msg)\<close> and extends both lists.
\<close>
function read_header_chunks ::
  "'m env \<Rightarrow> SameInterruptCheck \<Rightarrow> nat \<Rightarrow> byte list \<Rightarrow> nat list \<Rightarrow> 'm radio
   \<Rightarrow> byte list \<times> nat list \<times> 'm radio" where
  "read_header_chunks E self msg_len msg conf r =
     (if length msg < msg_len then
        (case get_status E self (length msg) False False r of
           (st, r1) \<Rightarrow> read_header_chunks E self msg_len (msg @ MESSAGE st) (conf @ CONFIDENCE st) r1)
      else (msg, conf, r))"
  by pat_completeness auto
termination
proof (relation "measure (\<lambda>(E, self, msg_len, msg, conf, r). msg_len - length msg)", goal_cases)
  case 1
  show ?case by simp
next
  case (2 E self msg_len msg conf r st r1)
  from 2(2) have "st = fst (get_status E self (length msg) False False r)"
    by (metis fst_conv)
  then have "length (MESSAGE st) = 8"
    by (simp add: length_MESSAGE_get_status)
  with 2(1) show ?case by simp
qed

declare read_header_chunks.simps [simp del]

text \<open>
  The first block of \<^verbatim>\<open>SameInterruptCheck.do_command0\<close> (\<^verbatim>\<open>if self.dispatch_message:\<close>).
  \<^verbatim>\<open>SAME.average_message\<close> is called before the buffer is emptied; the \<^verbatim>\<open>try\<close> holds
  the construction of the \<^verbatim>\<open>SAMEMessage\<close> and the firing of its event, and the
  \<^verbatim>\<open>ValueError\<close> of the constructor is answered with the other event.
\<close>
definition dispatch :: "'m env \<Rightarrow> SameInterruptCheck \<Rightarrow> 'm radio \<Rightarrow> 'm radio" where
  "dispatch E self r =
     (if dispatch_message self then
        let r1 = r\<lparr>same_timeout := Never\<rparr> in
        if length (same_messages r1) > 0 then
          let messages = same_messages r1;
              avg_message = average_message E messages;
              r2 = r1\<lparr>decode_calls := decode_calls r1 @ [messages]\<rparr>;
              r3 = r2\<lparr>same_messages := []\<rparr>
          in if SAMEMessage_ok E avg_message
             then fire_event (SAMEMessageReceivedEvent avg_message) r3
             else fire_event (InvalidSAMEMessageReceivedEvent messages) r3
        else r1
      else r)"

text \<open>\<^verbatim>\<open>SameInterruptCheck.do_command0\<close>\<close>
definition SameInterruptCheck_do_command0 ::
  "'m env \<Rightarrow> SameInterruptCheck \<Rightarrow> 'm radio \<Rightarrow> (error + pyval) \<times> SameInterruptCheck \<times> 'm radio" where
  "SameInterruptCheck_do_command0 E self r =
     (let r0 = dispatch E self r;
          (st, r1) = get_status E self 0 (clearbuf self) (intack self) r0;
          self1 = self\<lparr>status := Some st\<rparr>
      in if intack self1 then
           if EOMDET st then
             let r2 = r1\<lparr>same_timeout := At 0\<rparr>;
                 (t, r3) = time_time E r2
             in if t - last_EOM r3 > 5 then
                  let (t', r4) = time_time E r3;
                      r5 = r4\<lparr>last_EOM := t'\<rparr>
                  in (Inr PyNone, self1, fire_event EndOfMessage r5)
                else (Inr PyNone, self1, r3)
           else if PREDET st then
             let (t, r2) = time_time E r1
             in (Inr PyNone, self1, r2\<lparr>same_timeout := At (t + 6)\<rparr>)
           else if HDRRDY st then
             let msg_len = MSGLEN st;
                 (msg, conf, r2) =
                    read_header_chunks E self1 msg_len (MESSAGE st) (CONFIDENCE st) r1;
                 msg' = take (msg_len + 1) msg;
                 conf' = take (msg_len + 1) conf;
                 r3 = r2\<lparr>same_messages :=
                          same_messages r2 @ [(map (\<lambda>c. char_of (unat c)) msg', conf')]\<rparr>;
                 (st', r4) = get_status E self1 0 True False r3;
                 r5 = fire_event (SAMEHeaderReceived (same_messages r4)) r4;
                 (t, r6) = time_time E r5
             in (Inr PyNone, self1, r6\<lparr>same_timeout := At (t + 6)\<rparr>)
           else (Inr PyNone, self1, r1)
         else (Inr PyNone, self1, r1))"

subsection \<open>TuneStatus and TuneFrequency\<close>

record TuneStatus = Command +
  ack_stc :: bool
  ts_frequency :: "nat option"
  ts_rssi :: "int option"
  ts_snr :: "int option"

text \<open>\<^verbatim>\<open>TuneStatus.__init__\<close>\<close>
definition TuneStatus_init :: "bool \<Rightarrow> TuneStatus" where
  "TuneStatus_init ack =
     \<lparr>cls = ''TuneStatus'', opcode = 0x52, future = None, exception = None,
      result = None, time_complete = None,
      ack_stc = ack, ts_frequency = None, ts_rssi = None, ts_snr = None\<rparr>"

text \<open>
  \<^verbatim>\<open>TuneStatus.do_command0\<close>. \<^verbatim>\<open>struct.unpack(">xxHbb", bytes(bl))\<close> skips two bytes,
  reads a big-endian unsigned 16-bit value and two signed bytes.
\<close>
definition TuneStatus_do_command0 ::
  "'m env \<Rightarrow> TuneStatus \<Rightarrow> 'm radio \<Rightarrow> (error + pyval) \<times> TuneStatus \<times> 'm radio" where
  "TuneStatus_do_command0 E self r =
     (let r1 = writeList (opcode self) [of_bool (ack_stc self) AND 1] r;
          (cts, r2) = wait_for_clear_to_send E r1;
          (bl, r3) = readList E 0 6 r2;
          frequency = unat (bl ! 2) * 256 + unat (bl ! 3);
          rssi = sint (bl ! 4);
          snr = sint (bl ! 5);
          self1 = self\<lparr>ts_frequency := Some frequency, ts_rssi := Some rssi, ts_snr := Some snr\<rparr>
      in (Inr (PyTuple [PyFloat (real frequency / 400), PyInt rssi, PyInt snr]), self1, r3))"

record TuneFrequency = Command +
  tf_frequency :: int
  tf_rssi :: "int option"
  tf_snr :: "int option"

text \<open>Python's \<^verbatim>\<open>int(x)\<close> of a float: truncation towards zero.\<close>
definition py_int :: "real \<Rightarrow> int" where
  "py_int x = (if 0 \<le> x then \<lfloor>x\<rfloor> else \<lceil>x\<rceil>)"

text \<open>\<^verbatim>\<open>TuneFrequency.__init__\<close>\<close>
definition TuneFrequency_init :: "real \<Rightarrow> error + TuneFrequency" where
  "TuneFrequency_init frequency =
     (if \<not> (162.4 \<le> frequency \<and> frequency \<le> 162.55) then Inl (FrequencyOutOfRange frequency)
      else Inr \<lparr>cls = ''TuneFrequency'', opcode = 0x50, future = None, exception = None,
                result = None, time_complete = None,
                tf_frequency = py_int (400 * frequency), tf_rssi = None, tf_snr = None\<rparr>)"

text \<open>\<^verbatim>\<open>time.time() < radio.tune_after\<close>\<close>
fun before :: "real \<Rightarrow> tune_deadline \<Rightarrow> bool" where
  "before t NoWait = False"
| "before t (After d) = (t < d)"

text \<open>
  \<^verbatim>\<open>while time.time() < radio.tune_after: time.sleep(max(.1, radio.tune_after - time.time()))\<close>.
  Each turn reads the clock twice; what the sleep does shows in the next reading. The loop
  may never end: \<open>None\<close>.
\<close>
partial_function (option) wait_tune_after :: "'m env \<Rightarrow> 'm radio \<Rightarrow> 'm radio option" where
  "wait_tune_after E r =
     (case time_time E r of
        (t, r1) \<Rightarrow>
          if before t (tune_after r1) then
            (case time_time E r1 of (t', r2) \<Rightarrow> wait_tune_after E r2)
          else Some r1)"

text \<open>
  \<^verbatim>\<open>while not radio.check_interrupts().is_seek_tune_complete(): time.sleep(0.02)\<close>. The
  loop may never end: \<open>None\<close>.
\<close>
partial_function (option) wait_seek_tune_complete :: "'m env \<Rightarrow> 'm radio \<Rightarrow> 'm radio option" where
  "wait_seek_tune_complete E r =
     (case check_interrupts E r of
        (stc, r1) \<Rightarrow> if \<not> stc then wait_seek_tune_complete E r1 else Some r1)"

definition py_of_int_option :: "int option \<Rightarrow> pyval" where
  "py_of_int_option v = (case v of None \<Rightarrow> PyNone | Some i \<Rightarrow> PyInt i)"

text \<open>
  \<^verbatim>\<open>TuneFrequency.do_command0\<close>. \<^verbatim>\<open>struct.pack(">bH", 0, self.frequency)\<close> is a zero
  byte and the frequency as two bytes, high byte first, or \<^verbatim>\<open>struct.error\<close> when the
  frequency does not fit 16 bits. \<^verbatim>\<open>ts.do_command(radio)\<close> is the \<^verbatim>\<open>do_command\<close> of a
  fresh \<^verbatim>\<open>TuneStatus(True)\<close>, with no future: what it raises comes out of this method.
\<close>
definition TuneFrequency_do_command0 ::
  "'m env \<Rightarrow> TuneFrequency \<Rightarrow> 'm radio \<Rightarrow> ((error + pyval) \<times> TuneFrequency \<times> 'm radio) option" where
  "TuneFrequency_do_command0 E self r =
     (case wait_tune_after E r of
        None \<Rightarrow> None
      | Some r1 \<Rightarrow>
          if \<not> (0 \<le> tf_frequency self \<and> tf_frequency self \<le> 65535)
          then Some (Inl StructError, self, r1)
          else
            let r2 = writeList (opcode self)
                       [0, nat (tf_frequency self) div 256, nat (tf_frequency self) mod 256] r1;
                r3 = r2\<lparr>tone_start := None\<rparr>
            in case wait_seek_tune_complete E r3 of
                 None \<Rightarrow> None
               | Some r4 \<Rightarrow>
                   (case CommandRequiringPowerUp_do_command E
                           (\<lambda>c r. Some (TuneStatus_do_command0 E c r)) (TuneStatus_init True) r4 of
                      None \<Rightarrow> None
                    | Some (Inl e, ts, r5) \<Rightarrow> Some (Inl e, self, r5)
                    | Some (Inr u, ts, r5) \<Rightarrow>
                        (case ts_frequency ts of
                           None \<Rightarrow> Some (Inl TypeError, self, r5)
                         | Some f \<Rightarrow>
                             if int f \<noteq> tf_frequency self
                             then Some (Inl (FrequencyDidntStick (tf_frequency self) f), self, r5)
                             else
                               let self1 = self\<lparr>tf_rssi := ts_rssi ts, tf_snr := ts_snr ts\<rparr>
                               in Some (Inr (PyTuple [py_of_int_option (tf_rssi self1),
                                                      py_of_int_option (tf_snr self1),
                                                      PyFloat (real f / 400)]),
                                        self1, r5))))"

subsection \<open>PowerUp and PowerDown\<close>

record PowerUp = Command +
  cts_interrupt_enable :: bool
  gpo2_output_enable :: bool
  crystal_oscillator_enable :: bool
  patch :: bool
  pu_function :: nat
  opmode :: nat

text \<open>\<^verbatim>\<open>PowerUp.__init__\<close>\<close>
definition PowerUp_init :: "bool \<Rightarrow> bool \<Rightarrow> bool \<Rightarrow> bool \<Rightarrow> nat \<Rightarrow> nat \<Rightarrow> error + PowerUp" where
  "PowerUp_init cts_ie gpo2_oe xosc_e patch_arg function_arg opmode_arg =
     (if function_arg \<notin> set [3, 15] then Inl (BadFunction function_arg)
      else if opmode_arg \<notin> set [0x05, 0x0B, 0xB0, 0xB5] then Inl (BadOpmode opmode_arg)
      else Inr \<lparr>cls = ''PowerUp'', opcode = 0x01, future = None, exception = None,
                result = None, time_complete = None,
                cts_interrupt_enable = cts_ie, gpo2_output_enable = gpo2_oe,
                crystal_oscillator_enable = xosc_e, patch = patch_arg,
                pu_function = function_arg, opmode = opmode_arg\<rparr>)"

text \<open>\<^verbatim>\<open>_bit(value, offset)\<close>: \<^verbatim>\<open>(value and True) << offset\<close>\<close>
definition bit_at :: "bool \<Rightarrow> nat \<Rightarrow> nat" where
  "bit_at v offset = push_bit offset (of_bool v)"

text \<open>\<^verbatim>\<open>PowerUp.do_command00\<close>\<close>
definition PowerUp_do_command00 :: "'m env \<Rightarrow> PowerUp \<Rightarrow> 'm radio \<Rightarrow> pyval \<times> 'm radio" where
  "PowerUp_do_command00 E self r =
     (let r1 = writeList (opcode self)
                 [bit_at (cts_interrupt_enable self) 7 OR bit_at (gpo2_output_enable self) 6
                    OR bit_at (patch self) 5 OR bit_at (crystal_oscillator_enable self) 4
                    OR pu_function self,
                  opmode self] r
      in wait_for_clear_to_send E r1)"

text \<open>
  \<^verbatim>\<open>PowerUp.do_command0\<close>. A \<^verbatim>\<open>PupRevision\<close> is represented by the eight bytes it is
  built from.
\<close>
definition PowerUp_do_command0 ::
  "'m env \<Rightarrow> PowerUp \<Rightarrow> 'm radio \<Rightarrow> (error + pyval) \<times> PowerUp \<times> 'm radio" where
  "PowerUp_do_command0 E self r =
     (let (res, r1) = PowerUp_do_command00 E self r
      in if pu_function self = 15 then
           let (bl, r2) = readList E 0 8 r1
           in (Inr (PyBytes bl), self, r2\<lparr>revision := Some bl\<rparr>)
         else
           let r2 = fire_event (RadioPowerEvent True) (r1\<lparr>radio_power := True\<rparr>)
           in if crystal_oscillator_enable self then
                let (t, r3) = time_time E r2;
                    r4 = r3\<lparr>tune_after := After (t + 0.5)\<rparr>
                in (Inr res, self, delay_event ReadyToTuneEvent (t + 0.5) r4)
              else
                (Inr res, self, fire_event ReadyToTuneEvent (r2\<lparr>tune_after := NoWait\<rparr>)))"

text \<open>\<^verbatim>\<open>PowerUp\<close> inherits \<^verbatim>\<open>do_command\<close> from \<^verbatim>\<open>Command\<close>.\<close>
definition PowerUp_do_command ::
  "'m env \<Rightarrow> PowerUp \<Rightarrow> 'm radio \<Rightarrow> ((error + unit) \<times> PowerUp \<times> 'm radio) option" where
  "PowerUp_do_command E = Command_do_command E (\<lambda>c r. Some (PowerUp_do_command0 E c r))"

text \<open>\<^verbatim>\<open>PowerDown.__init__\<close>; the class adds no field to \<^verbatim>\<open>Command\<close>.\<close>
definition PowerDown_init :: "Command" where
  "PowerDown_init =
     \<lparr>cls = ''PowerDown'', opcode = 0x11, future = None, exception = None,
      result = None, time_complete = None\<rparr>"

text \<open>\<^verbatim>\<open>PowerDown.do_command0\<close>; its \<^verbatim>\<open>super().do_command0\<close> is \<^verbatim>\<open>Command.do_command0\<close>.\<close>
definition PowerDown_do_command0 ::
  "'m env \<Rightarrow> Command \<Rightarrow> 'm radio \<Rightarrow> (error + pyval) \<times> Command \<times> 'm radio" where
  "PowerDown_do_command0 E self r =
     (case Command_do_command0 E self r of
        (Inl e, self1, r1) \<Rightarrow> (Inl e, self1, r1)
      | (Inr res, self1, r1) \<Rightarrow>
          (Inr PyNone, self1, fire_event (RadioPowerEvent False) (r1\<lparr>radio_power := False\<rparr>)))"

text \<open>
  \<^verbatim>\<open>class PowerDown(CommandRequiringPowerUp)\<close>: its \<^verbatim>\<open>do_command\<close> is the guarded one.
\<close>
definition PowerDown_do_command ::
  "'m env \<Rightarrow> Command \<Rightarrow> 'm radio \<Rightarrow> ((error + unit) \<times> Command \<times> 'm radio) option" where
  "PowerDown_do_command E =
     CommandRequiringPowerUp_do_command E (\<lambda>c r. Some (PowerDown_do_command0 E c r))"

text \<open>\<^verbatim>\<open>SameInterruptCheck\<close> and \<^verbatim>\<open>TuneFrequency\<close> are \<^verbatim>\<open>CommandRequiringPowerUp\<close> too.\<close>
definition SameInterruptCheck_do_command ::
  "'m env \<Rightarrow> SameInterruptCheck \<Rightarrow> 'm radio
   \<Rightarrow> ((error + unit) \<times> SameInterruptCheck \<times> 'm radio) option" where
  "SameInterruptCheck_do_command E =
     CommandRequiringPowerUp_do_command E (\<lambda>c r. Some (SameInterruptCheck_do_command0 E c r))"

definition TuneFrequency_do_command ::
  "'m env \<Rightarrow> TuneFrequency \<Rightarrow> 'm radio \<Rightarrow> ((error + unit) \<times> TuneFrequency \<times> 'm radio) option" where
  "TuneFrequency_do_command E = CommandRequiringPowerUp_do_command E (TuneFrequency_do_command0 E)"

subsection \<open>The layouts of the specification\<close>

text \<open>
  The confidence region of a status response: the bytes that hold the confidence fields,
  bytes 4 and 5 of the 14.
\<close>
definition confidence_region :: "byte list \<Rightarrow> byte list" where
  "confidence_region data = take 2 (drop 4 data)"

text \<open>
  The specification's layout read as an encoder: the confidence of symbol \<open>i\<close> is a 2-bit
  field in byte \<open>(7 - i) div 4\<close> of the region, at bit offset \<open>(i mod 4) * 2\<close>.
\<close>
definition pack_confidence :: "nat list \<Rightarrow> byte list" where
  "pack_confidence cs =
     map (\<lambda>b. sum_list (map (\<lambda>i. push_bit (i mod 4 * 2) (of_nat (cs ! i)))
                             (filter (\<lambda>i. (7 - i) div 4 = b) [0..<8])))
       [0..<2]"

text \<open>
  The request byte as the specification states it: bit 0 is the clear-buffer flag, bit 1
  the interrupt-acknowledge flag.
\<close>
definition stated_status_request_byte :: "bool \<Rightarrow> bool \<Rightarrow> nat" where
  "stated_status_request_byte clearbuf_arg intack_arg =
     of_bool clearbuf_arg OR 2 * of_bool intack_arg"

subsection \<open>A scripted environment, for evaluating the model\<close>

text \<open>
  A bus that answers the \<open>k\<close>-th read with the \<open>k\<close>-th list of \<open>answers\<close> (zeros beyond
  them), a clock that reads \<open>readings ! k\<close> at the \<open>k\<close>-th call (and the last of them, or 0,
  afterwards), a chip that reports tune-complete at the poll \<open>stc_at\<close>, and a decoder that
  averages the receptions to the first text and accepts it when it is not empty.
\<close>
definition scripted_env :: "byte list list \<Rightarrow> real list \<Rightarrow> nat \<Rightarrow> string env" where
  "scripted_env answers readings stc_at =
     \<lparr>hw = (\<lambda>k j. if k < length answers \<and> j < length (answers ! k) then answers ! k ! j else 0),
      clock = (\<lambda>k. if k < length readings then readings ! k
                   else if readings = [] then 0 else last readings),
      seek_tune_complete = (\<lambda>k. k = stc_at),
      clear_to_send = PyNone,
      average_message = (\<lambda>ms. if ms = [] then [] else fst (hd ms)),
      SAMEMessage_ok = (\<lambda>m. m \<noteq> [])\<rparr>"

definition idle_radio :: "bool \<Rightarrow> string radio" where
  "idle_radio powered =
     \<lparr>radio_power = powered, tune_after = NoWait, same_timeout = Never, same_messages = [],
      last_EOM = 0, tone_start = None, revision = None,
      bus_log = [], reads = 0, ticks = 0, polls = 0, fired = [], delayed = [],
      decode_calls = [], future_calls = []\<rparr>"

text \<open>
  What \<^verbatim>\<open>Command.do_command\<close> passes to the future for an outcome of \<^verbatim>\<open>do_command0\<close>:
  the exception, or the result, with the command itself replaced by the string "self".
\<close>
definition delivered :: "error + pyval \<Rightarrow> error + pyval" where
  "delivered out = (case out of Inl e \<Rightarrow> Inl e
                    | Inr v \<Rightarrow> Inr (if v = PySelf then PyStr ''self'' else v))"

subsection \<open>Names for what a poll reads and writes\<close>

text \<open>
  The status decoded from the bus's \<open>k\<close>-th answer; the three bus calls of one status
  request; the requests and the chunks of \<open>n\<close> further reads of a header, the first at
  read offset \<open>start\<close> and from the bus's \<open>k\<close>-th answer on.
\<close>
definition answer :: "'m env \<Rightarrow> nat \<Rightarrow> same_status" where
  "answer E k = status_of (map (hw E k) [0..<14])"

definition status_request :: "nat \<Rightarrow> bool \<Rightarrow> bool \<Rightarrow> nat \<Rightarrow> bus_op list" where
  "status_request op clearbuf_arg intack_arg readaddr =
     [WriteList op [get_status_arg clearbuf_arg intack_arg, readaddr], WaitCTS, ReadList 0 14]"

definition chunk_requests :: "nat \<Rightarrow> nat \<Rightarrow> nat \<Rightarrow> bus_op list" where
  "chunk_requests op start n =
     concat (map (\<lambda>j. status_request op False False (start + 8 * j)) [0..<n])"

definition chunks_MESSAGE :: "'m env \<Rightarrow> nat \<Rightarrow> nat \<Rightarrow> byte list" where
  "chunks_MESSAGE E k n = concat (map (\<lambda>j. MESSAGE (answer E (k + j))) [0..<n])"

definition chunks_CONFIDENCE :: "'m env \<Rightarrow> nat \<Rightarrow> nat \<Rightarrow> nat list" where
  "chunks_CONFIDENCE E k n = concat (map (\<lambda>j. CONFIDENCE (answer E (k + j))) [0..<n])"

text \<open>
  The controller after the first status request of a poll, and, for a poll whose first
  answer is the bus's \<open>k\<close>-th: how many further reads a header of the declared length takes,
  and the symbols and confidences assembled from all of them.
\<close>
definition polled :: "'m env \<Rightarrow> SameInterruptCheck \<Rightarrow> 'm radio \<Rightarrow> 'm radio" where
  "polled E self r =
     (dispatch E self r)
       \<lparr>bus_log := bus_log r @ status_request (opcode self) (clearbuf self) (intack self) 0,
        reads := Suc (reads r)\<rparr>"

definition extra_reads :: "'m env \<Rightarrow> nat \<Rightarrow> nat" where
  "extra_reads E k = (MSGLEN (answer E k) - 8 + 7) div 8"

definition assembled_MESSAGE :: "'m env \<Rightarrow> nat \<Rightarrow> byte list" where
  "assembled_MESSAGE E k = MESSAGE (answer E k) @ chunks_MESSAGE E (Suc k) (extra_reads E k)"

definition assembled_CONFIDENCE :: "'m env \<Rightarrow> nat \<Rightarrow> nat list" where
  "assembled_CONFIDENCE E k =
     CONFIDENCE (answer E k) @ chunks_CONFIDENCE E (Suc k) (extra_reads E k)"

text \<open>A status that the header-ready branch of a poll handles.\<close>
definition header_ready_only :: "same_status \<Rightarrow> bool" where
  "header_ready_only st = (\<not> EOMDET st \<and> \<not> PREDET st \<and> HDRRDY st)"

text \<open>A sequence of polls, each on the controller the one before left.\<close>
definition run_polls :: "'m env \<Rightarrow> SameInterruptCheck list \<Rightarrow> 'm radio \<Rightarrow> 'm radio" where
  "run_polls E cs r = fold (\<lambda>c r. snd (snd (SameInterruptCheck_do_command0 E c r))) cs r"


text \<open>
  A script for four polls: three header-ready answers with a declared length of 5, each
  followed by the answer to the clear-buffer request, then an end-of-message answer.
\<close>
definition three_headers_script :: "string env" where
  "three_headers_script =
     scripted_env
       [[0x80, 0x01, 0, 5, 0xFF, 0xFF, 72, 69, 76, 76, 79, 0, 0, 0],
        [0x80, 0x00, 0, 0, 0, 0, 0, 0, 0, 0, 0, 0, 0, 0],
        [0x80, 0x01, 0, 5, 0xFF, 0xFE, 72, 69, 76, 76, 79, 0, 0, 0],
        [0x80, 0x00, 0, 0, 0, 0, 0, 0, 0, 0, 0, 0, 0, 0],
        [0x80, 0x01, 0, 5, 0xFF, 0xFF, 72, 69, 76, 76, 79, 0, 0, 0],
        [0x80, 0x00, 0, 0, 0, 0, 0, 0, 0, 0, 0, 0, 0, 0],
        [0x80, 0x08, 0, 0, 0, 0, 0, 0, 0, 0, 0, 0, 0, 0]]
       [100, 101, 102, 110, 110.5] 0"

section \<open>Properties\<close>

subsection \<open>The confidence fields\<close>

lemma upt_0_8: "[0..<8] = [0, 1, 2, 3, 4, 5, 6, 7::nat]"
  by code_simp

lemma upt_0_2: "[0..<2] = [0, 1::nat]"
  by code_simp

lemma fold_update_upt_aux:
  "m \<le> length ys \<Longrightarrow>
   fold (\<lambda>i xs. xs[i := f i]) [0..<m] ys = map f [0..<m] @ drop m ys"
proof (induction m)
  case 0
  then show ?case by simp
next
  case (Suc m)
  then have m: "m < length ys" by simp
  have "fold (\<lambda>i xs. xs[i := f i]) [0..<Suc m] ys
        = (map f [0..<m] @ drop m ys)[m := f m]"
    using Suc by simp
  also have "\<dots> = map f [0..<m] @ (drop m ys)[0 := f m]"
    by (simp add: list_update_append)
  also have "drop m ys = ys ! m # drop (Suc m) ys"
    using m by (simp add: Cons_nth_drop_Suc)
  finally show ?case by simp
qed

lemma fold_update_upt:
  "fold (\<lambda>i xs. xs[i := f i]) [0..<n] (replicate n z) = map f [0..<n]"
  using fold_update_upt_aux [of n "replicate n z" f] by simp

lemma decode_confidence_map:
  "decode_confidence data =
     map (\<lambda>i. unat (drop_bit (i mod 4 * 2) (data ! ((7 - i) div 4 + 4)) AND 3)) [0..<8]"
  unfolding decode_confidence_def by (rule fold_update_upt)

lemma and3_nat: "(n::nat) AND 3 = n mod 4"
proof -
  have "(3::nat) = mask 2" by (simp add: mask_eq_exp_minus_1)
  then show ?thesis by (simp only: flip: take_bit_eq_mask) (simp add: take_bit_eq_mod)
qed

lemma unat_field: "unat (drop_bit s (w::byte) AND 3) = unat w div 2 ^ s mod 4"
proof -
  have "unat (drop_bit s w AND 3) = drop_bit s (unat w) AND unat (3::byte)"
    by (simp only: unsigned_and_eq unat_drop_bit_eq)
  then show ?thesis by (simp add: and3_nat drop_bit_eq_div)
qed

lemma unat_packed:
  assumes "a \<le> 3" "b \<le> 3" "c \<le> 3" "d \<le> 3"
  shows "unat (of_nat a + 4 * of_nat b + 16 * of_nat c + 64 * of_nat d :: byte)
         = a + 4 * b + 16 * c + 64 * d"
proof -
  have "(of_nat a + 4 * of_nat b + 16 * of_nat c + 64 * of_nat d :: byte)
        = of_nat (a + 4 * b + 16 * c + 64 * d)"
    by simp
  moreover have "a + 4 * b + 16 * c + 64 * d < 256" using assms by arith
  ultimately show ?thesis by (simp only: unat_of_nat) simp
qed

lemma field_low: "a \<le> 3 \<Longrightarrow> (a + 4 * k) mod 4 = (a::nat)"
  by simp

lemma field_high: "a \<le> 3 \<Longrightarrow> (a + 4 * k) div 4 = (k::nat)"
  by simp

lemma packed_fields:
  assumes "a \<le> 3" "b \<le> 3" "c \<le> 3" "d \<le> (3::nat)"
  shows "(a + 4 * b + 16 * c + 64 * d) mod 4 = a"
    and "(a + 4 * b + 16 * c + 64 * d) div 4 mod 4 = b"
    and "(a + 4 * b + 16 * c + 64 * d) div 16 mod 4 = c"
    and "(a + 4 * b + 16 * c + 64 * d) div 64 mod 4 = d"
proof -
  let ?n = "a + 4 * b + 16 * c + 64 * d"
  have n: "?n = a + 4 * (b + 4 * (c + 4 * d))" by simp
  have d1: "?n div 4 = b + 4 * (c + 4 * d)"
    unfolding n using assms(1) by (rule field_high)
  have "?n div 16 = ?n div 4 div 4" by (simp add: div_mult2_eq[symmetric])
  then have d2: "?n div 16 = c + 4 * d"
    unfolding d1 using assms(2) by (simp only: field_high)
  have "?n div 64 = ?n div 16 div 4" by (simp add: div_mult2_eq[symmetric])
  then have d3: "?n div 64 = d"
    unfolding d2 using assms(3) by simp
  show "?n mod 4 = a" unfolding n using assms(1) by (rule field_low)
  show "?n div 4 mod 4 = b" unfolding d1 using assms(2) by (rule field_low)
  show "?n div 16 mod 4 = c" unfolding d2 using assms(3) by simp
  show "?n div 64 mod 4 = d" unfolding d3 using assms(4) by simp
qed

lemma pack_confidence_bytes:
  "pack_confidence cs =
     [of_nat (cs ! 4) + 4 * of_nat (cs ! 5) + 16 * of_nat (cs ! 6) + 64 * of_nat (cs ! 7),
      of_nat (cs ! 0) + 4 * of_nat (cs ! 1) + 16 * of_nat (cs ! 2) + 64 * of_nat (cs ! 3)]"
  by (simp add: pack_confidence_def upt_0_8 upt_0_2 push_bit_eq_mult)

lemma confidence_region_bytes:
  "length data = 14 \<Longrightarrow> confidence_region data = [data ! 4, data ! 5]"
proof (rule nth_equalityI)
  assume "length data = 14"
  then show "length (confidence_region data) = length [data ! 4, data ! 5]"
    by (simp add: confidence_region_def)
next
  fix i
  assume len: "length data = 14" and "i < length (confidence_region data)"
  then have "i = 0 \<or> i = 1" by (auto simp: confidence_region_def)
  with len show "confidence_region data ! i = [data ! 4, data ! 5] ! i"
    by (auto simp: confidence_region_def)
qed

lemma lt8_cases: "i < 8 \<Longrightarrow> i = 0 \<or> i = 1 \<or> i = 2 \<or> i = 3 \<or> i = 4 \<or> i = 5 \<or> i = 6 \<or> i = (7::nat)"
  by arith

text \<open>
  C4. For a 14-byte status response, the confidence decoded for symbol \<open>i\<close> (0..7) is the
  2-bit field at bit offset \<open>(i mod 4) * 2\<close> of byte \<open>(7 - i) div 4\<close> of the confidence
  region (the region starts at byte 4 of the response); and when the region packs eight
  confidence values, each at most 3, by that layout, decoding returns exactly these values.
\<close>
theorem confidence_decode_layout:
  "length data = 14 \<longrightarrow>
     (\<forall>i<8. CONFIDENCE (status_of data) ! i
             = unat (drop_bit (i mod 4 * 2) (drop 4 data ! ((7 - i) div 4)) AND 3))
     \<and> (\<forall>cs. length cs = 8 \<and> (\<forall>c\<in>set cs. c \<le> 3) \<and> confidence_region data = pack_confidence cs
          \<longrightarrow> CONFIDENCE (status_of data) = cs)"
proof (intro impI conjI allI)
  fix i :: nat
  assume len: "length data = 14" and i: "i < 8"
  then have "(7 - i) div 4 + 4 < length data" by simp
  with i show "CONFIDENCE (status_of data) ! i
      = unat (drop_bit (i mod 4 * 2) (drop 4 data ! ((7 - i) div 4)) AND 3)"
    using len by (simp add: status_of_def decode_confidence_map add.commute)
next
  fix cs
  assume len: "length data = 14"
    and cs: "length cs = 8 \<and> (\<forall>c\<in>set cs. c \<le> 3) \<and> confidence_region data = pack_confidence cs"
  from cs have le: "cs ! j \<le> 3" if "j < 8" for j
    using that by (metis nth_mem)
  from cs len have d4: "data ! 4 = of_nat (cs ! 4) + 4 * of_nat (cs ! 5) + 16 * of_nat (cs ! 6) + 64 * of_nat (cs ! 7)"
    and d5: "data ! 5 = of_nat (cs ! 0) + 4 * of_nat (cs ! 1) + 16 * of_nat (cs ! 2) + 64 * of_nat (cs ! 3)"
    by (simp_all add: confidence_region_bytes pack_confidence_bytes)
  have u4: "unat (data ! 4) = cs ! 4 + 4 * cs ! 5 + 16 * cs ! 6 + 64 * cs ! 7"
    unfolding d4 by (rule unat_packed) (simp_all add: le)
  have u5: "unat (data ! 5) = cs ! 0 + 4 * cs ! 1 + 16 * cs ! 2 + 64 * cs ! 3"
    unfolding d5 by (rule unat_packed) (simp_all add: le)
  have f4: "unat (data ! 4) mod 4 = cs ! 4" "unat (data ! 4) div 4 mod 4 = cs ! 5"
    "unat (data ! 4) div 16 mod 4 = cs ! 6" "unat (data ! 4) div 64 mod 4 = cs ! 7"
    unfolding u4 by (rule packed_fields; simp add: le)+
  have f5: "unat (data ! 5) mod 4 = cs ! 0" "unat (data ! 5) div 4 mod 4 = cs ! 1"
    "unat (data ! 5) div 16 mod 4 = cs ! 2" "unat (data ! 5) div 64 mod 4 = cs ! 3"
    unfolding u5 by (rule packed_fields; simp add: le)+
  have "decode_confidence data ! i = cs ! i" if "i < 8" for i
    using lt8_cases [OF that] that
    by (elim disjE) (simp_all add: decode_confidence_map unat_field f4 f5)
  with cs have "decode_confidence data = cs"
    by (intro nth_equalityI) (simp_all add: decode_confidence_map)
  then show "CONFIDENCE (status_of data) = cs"
    by (simp add: status_of_def)
qed

theorem confidence_decode_layout_witness:
  "length [0, 0, 0, 0, 0x1B, 0xE4, 0, 0, 0, 0, 0, 0, 0, 0 :: byte] = 14
   \<and> CONFIDENCE (status_of [0, 0, 0, 0, 0x1B, 0xE4, 0, 0, 0, 0, 0, 0, 0, 0]) = [0, 1, 2, 3, 3, 2, 1, 0]
   \<and> CONFIDENCE (status_of [0, 0, 0, 0, 0x1B, 0xE4, 0, 0, 0, 0, 0, 0, 0, 0]) ! 5
       = unat (drop_bit 2 (0x1B :: byte) AND 3)"
proof -
  let ?data = "[0, 0, 0, 0, 0x1B, 0xE4, 0, 0, 0, 0, 0, 0, 0, 0 :: byte]"
  have len: "length ?data = 14" by simp
  have reg: "confidence_region ?data = pack_confidence [0, 1, 2, 3, 3, 2, 1, 0]"
    by (simp add: confidence_region_def pack_confidence_bytes)
  from confidence_decode_layout [of ?data] len
  have a: "\<forall>i<8. CONFIDENCE (status_of ?data) ! i
             = unat (drop_bit (i mod 4 * 2) (drop 4 ?data ! ((7 - i) div 4)) AND 3)"
    and b: "\<forall>cs. length cs = 8 \<and> (\<forall>c\<in>set cs. c \<le> 3) \<and> confidence_region ?data = pack_confidence cs
          \<longrightarrow> CONFIDENCE (status_of ?data) = cs"
    by blast+
  from b reg have "CONFIDENCE (status_of ?data) = [0, 1, 2, 3, 3, 2, 1, 0]" by simp
  moreover from a have "CONFIDENCE (status_of ?data) ! 5
       = unat (drop_bit (5 mod 4 * 2) (drop 4 ?data ! ((7 - 5) div 4)) AND 3)" by simp
  ultimately show ?thesis using len by simp
qed


subsection \<open>The request byte of the status command\<close>

text \<open>
  C9. The first payload byte of a status request, as the code computes it: 1 when the
  clear-buffer flag is false and 0 when it is true, whatever the interrupt-acknowledge
  flag is. With both flags false the bus gets 1, where the stated layout gives 0.
\<close>
theorem status_request_byte_ignores_intack:
  "get_status_arg clearbuf_arg intack_arg = (if clearbuf_arg then 0 else 1)
   \<and> get_status_arg False False = 1
   \<and> stated_status_request_byte False False = 0
   \<and> bus_log (snd (get_status E (SameInterruptCheck_init False False False) 0 False False r))
       = bus_log r @ [WriteList 0x54 [1, 0], WaitCTS, ReadList 0 14]"
  by (simp add: get_status_arg_def stated_status_request_byte_def get_status_def
      SameInterruptCheck_init_def writeList_def wait_for_clear_to_send_def readList_def)

subsection \<open>The power check\<close>

text \<open>
  \<^verbatim>\<open>PowerDown\<close> on a radio that is powered down: the check refuses it, and the bus is
  not touched.
\<close>
theorem power_down_is_guarded:
  "PowerDown_do_command (scripted_env [] [] 0) PowerDown_init (idle_radio False)
   = Some (Inl (PoweredDown ''PowerDown''), PowerDown_init, idle_radio False)
   \<and> bus_log (idle_radio False :: string radio) = []"
  by (simp add: PowerDown_do_command_def CommandRequiringPowerUp_do_command_def idle_radio_def
      PowerDown_init_def)

text \<open>
  C6 (as amended). While the power flag is false, every command whose class derives from
  \<^verbatim>\<open>CommandRequiringPowerUp\<close> (whatever its \<^verbatim>\<open>do_command0\<close>; \<^verbatim>\<open>PowerDown\<close> is one of
  them) raises the powered-down error and leaves the controller, and so the bus, as it was;
  \<^verbatim>\<open>PowerUp\<close> has no such check: it writes its request to the bus and, unless it only
  queries the library id, sets the power flag.
\<close>
theorem power_guard_before_bus:
  assumes "\<not> radio_power r"
  shows "CommandRequiringPowerUp_do_command E do_command0 self r
           = Some (Inl (PoweredDown (cls self)), self, r)
       \<and> PowerDown_do_command E pd r = Some (Inl (PoweredDown (cls pd)), pd, r)
       \<and> SameInterruptCheck_do_command E sic r = Some (Inl (PoweredDown (cls sic)), sic, r)
       \<and> TuneFrequency_do_command E tf r = Some (Inl (PoweredDown (cls tf)), tf, r)
       \<and> (\<exists>self' r'. PowerUp_do_command E pu r = Some (Inr (), self', r')
             \<and> bus_log r' = bus_log r @
                  WriteList (opcode pu)
                    [bit_at (cts_interrupt_enable pu) 7 OR bit_at (gpo2_output_enable pu) 6
                       OR bit_at (patch pu) 5 OR bit_at (crystal_oscillator_enable pu) 4
                       OR pu_function pu,
                     opmode pu]
                  # WaitCTS # (if pu_function pu = 15 then [ReadList 0 8] else [])
             \<and> radio_power r' = (pu_function pu \<noteq> 15))"
proof -
  have "\<exists>self' r'. PowerUp_do_command E pu r = Some (Inr (), self', r')
             \<and> bus_log r' = bus_log r @
                  WriteList (opcode pu)
                    [bit_at (cts_interrupt_enable pu) 7 OR bit_at (gpo2_output_enable pu) 6
                       OR bit_at (patch pu) 5 OR bit_at (crystal_oscillator_enable pu) 4
                       OR pu_function pu,
                     opmode pu]
                  # WaitCTS # (if pu_function pu = 15 then [ReadList 0 8] else [])
             \<and> radio_power r' = (pu_function pu \<noteq> 15)"
    using assms
    by (simp add: PowerUp_do_command_def Command_do_command_def PowerUp_do_command0_def
        PowerUp_do_command00_def Let_def writeList_def wait_for_clear_to_send_def readList_def
        time_time_def fire_event_def delay_event_def future_result_def future_exception_def
        split: prod.splits option.splits)
  with assms show ?thesis
    by (simp add: CommandRequiringPowerUp_do_command_def PowerDown_do_command_def
        SameInterruptCheck_do_command_def TuneFrequency_do_command_def)
qed

theorem power_guard_before_bus_witness:
  "\<not> radio_power (idle_radio False :: string radio)
   \<and> SameInterruptCheck_do_command (scripted_env [] [1] 0)
         (SameInterruptCheck_init True False False) (idle_radio False)
       = Some (Inl (PoweredDown ''SameInterruptCheck''),
               SameInterruptCheck_init True False False, idle_radio False)
   \<and> (\<exists>self' r'.
         PowerUp_do_command (scripted_env [] [1] 0)
           \<lparr>cls = ''PowerUp'', opcode = 0x01, future = None, exception = None, result = None,
            time_complete = None, cts_interrupt_enable = False, gpo2_output_enable = True,
            crystal_oscillator_enable = True, patch = False, pu_function = 3, opmode = 0x05\<rparr>
           (idle_radio False)
         = Some (Inr (), self', r')
       \<and> bus_log r' = [WriteList 0x01 [0x53, 0x05], WaitCTS]
       \<and> radio_power r')"
proof -
  let ?E = "scripted_env [] [1] 0"
  let ?pu = "\<lparr>cls = ''PowerUp'', opcode = 0x01, future = None, exception = None, result = None,
            time_complete = None, cts_interrupt_enable = False, gpo2_output_enable = True,
            crystal_oscillator_enable = True, patch = False, pu_function = 3, opmode = 0x05\<rparr>"
  have off: "\<not> radio_power (idle_radio False :: string radio)"
    by (simp add: idle_radio_def)
  have byte: "bit_at False 7 OR bit_at True 6 OR bit_at False 5 OR bit_at True 4 OR 3 = (0x53::nat)"
    by (simp add: bit_at_def)
  have log: "bus_log (idle_radio False :: string radio) = []"
    by (simp add: idle_radio_def)
  have name: "cls (SameInterruptCheck_init True False False) = ''SameInterruptCheck''"
    by (simp add: SameInterruptCheck_init_def)
  let ?tf = "\<lparr>cls = ''TuneFrequency'', opcode = 0x50, future = None, exception = None,
              result = None, time_complete = None,
              tf_frequency = 64960, tf_rssi = None, tf_snr = None\<rparr>"
  from power_guard_before_bus
         [OF off, of ?E "\<lambda>c r. Some (TuneStatus_do_command0 ?E c r)" "TuneStatus_init True"
            PowerDown_init "SameInterruptCheck_init True False False" ?tf ?pu]
  show ?thesis
    using off byte log name by auto
qed


subsection \<open>Delivery of the outcome\<close>

text \<open>
  A \<^verbatim>\<open>TuneStatus\<close> with a future attached, run on a radio that is powered down: the
  \<^verbatim>\<open>ValueError\<close> is raised to the caller, nothing is passed to the future, the future stays
  attached and no completion time is recorded.
\<close>
theorem guarded_failure_bypasses_future:
  "CommandRequiringPowerUp_do_command (scripted_env [] [] 0)
      (\<lambda>c r. Some (TuneStatus_do_command0 (scripted_env [] [] 0) c r))
      ((TuneStatus_init True)\<lparr>future := Some 7\<rparr>) (idle_radio False)
   = Some (Inl (PoweredDown ''TuneStatus''),
           (TuneStatus_init True)\<lparr>future := Some 7\<rparr>, idle_radio False)
   \<and> future ((TuneStatus_init True)\<lparr>future := Some 7\<rparr>) = Some 7
   \<and> time_complete ((TuneStatus_init True)\<lparr>future := Some 7\<rparr>) = None
   \<and> future_calls (idle_radio False :: string radio) = []"
  by (simp add: CommandRequiringPowerUp_do_command_def idle_radio_def TuneStatus_init_def)

text \<open>
  C7 (as amended). For every run of \<^verbatim>\<open>Command.do_command\<close> whose \<^verbatim>\<open>do_command0\<close> returns
  or raises, which is every execution once the power check of
  \<^verbatim>\<open>CommandRequiringPowerUp\<close> has passed: with a future attached, the outcome (result or
  exception) is passed to the future and nothing is raised; with none attached, an exception
  is raised to the caller; in both cases the future is released afterwards and the
  completion time is the clock reading taken then.
\<close>
theorem do_command_delivers_outcome:
  assumes "do_command0 self r = Some (out, self1, r1)"
  shows "(\<exists>raised self' r'.
           Command_do_command E do_command0 self r = Some (raised, self', r')
         \<and> (\<forall>h. future self1 = Some h \<longrightarrow>
                future_calls r' = future_calls r1 @ [(h, delivered out)] \<and> raised = Inr ())
         \<and> (future self1 = None \<longrightarrow>
                future_calls r' = future_calls r1
              \<and> raised = (case out of Inl e \<Rightarrow> Inl e | Inr v \<Rightarrow> Inr ()))
         \<and> future self' = None
         \<and> time_complete self' = Some (clock E (ticks r1))
         \<and> ticks r' = Suc (ticks r1)
         \<and> (case out of Inl e \<Rightarrow> exception self' = Some e
             | Inr v \<Rightarrow> result self' = Some (if v = PySelf then PyStr ''self'' else v)))
       \<and> (radio_power r \<longrightarrow>
            CommandRequiringPowerUp_do_command E do_command0 self r
            = Command_do_command E do_command0 self r)"
  using assms
  by (cases out; cases "future self1")
     (simp_all add: Command_do_command_def CommandRequiringPowerUp_do_command_def Let_def
       time_time_def future_result_def future_exception_def delivered_def)

theorem do_command_delivers_outcome_witness:
  "\<exists>raised self' r'.
      CommandRequiringPowerUp_do_command (scripted_env [[0, 0, 0xFD, 0xC0, 0x20, 0xF0]] [5] 0)
        (\<lambda>c r. Some (TuneStatus_do_command0
                        (scripted_env [[0, 0, 0xFD, 0xC0, 0x20, 0xF0]] [5] 0) c r))
        ((TuneStatus_init True)\<lparr>future := Some 7\<rparr>) (idle_radio True)
      = Some (raised, self', r')
    \<and> raised = Inr ()
    \<and> future_calls r' = [(7, Inr (PyTuple [PyFloat 162.4, PyInt 32, PyInt (- 16)]))]
    \<and> future self' = None
    \<and> time_complete self' = Some 5
    \<and> result self' = Some (PyTuple [PyFloat 162.4, PyInt 32, PyInt (- 16)])"
proof -
  let ?E = "scripted_env [[0, 0, 0xFD, 0xC0, 0x20, 0xF0]] [5] 0"
  let ?ts = "(TuneStatus_init True)\<lparr>future := Some 7\<rparr>"
  let ?out = "Inr (PyTuple [PyFloat 162.4, PyInt 32, PyInt (- 16)]) :: error + pyval"
  let ?ts1 = "?ts\<lparr>ts_frequency := Some 64960, ts_rssi := Some 32, ts_snr := Some (- 16)\<rparr>"
  let ?r1 = "(idle_radio True :: string radio)
               \<lparr>bus_log := [WriteList 0x52 [1], WaitCTS, ReadList 0 6], reads := 1\<rparr>"
  have ret: "(\<lambda>c r. Some (TuneStatus_do_command0 ?E c r)) ?ts (idle_radio True)
             = Some (?out, ?ts1, ?r1)"
    by (simp add: TuneStatus_do_command0_def scripted_env_def idle_radio_def TuneStatus_init_def
        writeList_def wait_for_clear_to_send_def readList_def Let_def)
  have fut: "future ?ts1 = Some 7" and pow: "radio_power (idle_radio True :: string radio)"
    and tk: "clock ?E (ticks ?r1) = 5" and fc: "future_calls ?r1 = []"
    by (simp_all add: TuneStatus_init_def idle_radio_def scripted_env_def)
  from do_command_delivers_outcome
         [of "\<lambda>c r. Some (TuneStatus_do_command0 ?E c r)" ?ts "idle_radio True" ?out ?ts1 ?r1 ?E]
       ret fut pow tk fc
  show ?thesis
    by (auto simp: delivered_def)
qed

subsection \<open>The reads of a header\<close>

lemma get_status_eq:
  "get_status E self readaddr cb ia r =
     (answer E (reads r),
      r\<lparr>bus_log := bus_log r @ status_request (opcode self) cb ia readaddr,
        reads := Suc (reads r)\<rparr>)"
  by (simp add: get_status_def answer_def status_request_def writeList_def
      wait_for_clear_to_send_def readList_def)

lemma length_MESSAGE_answer: "length (MESSAGE (answer E k)) = 8"
  by (simp add: answer_def status_of_def)

lemma length_CONFIDENCE_answer: "length (CONFIDENCE (answer E k)) = 8"
  by (simp add: answer_def status_of_def decode_confidence_map)

lemma chunks_Suc:
  "chunk_requests op start (Suc n) = status_request op False False start @ chunk_requests op (start + 8) n"
  "chunks_MESSAGE E k (Suc n) = MESSAGE (answer E k) @ chunks_MESSAGE E (Suc k) n"
  "chunks_CONFIDENCE E k (Suc n) = CONFIDENCE (answer E k) @ chunks_CONFIDENCE E (Suc k) n"
  by (simp_all add: chunk_requests_def chunks_MESSAGE_def chunks_CONFIDENCE_def
      upt_conv_Cons map_Suc_upt[symmetric] comp_def add.assoc del: upt_Suc)

lemma chunks_0:
  "chunk_requests op start 0 = []" "chunks_MESSAGE E k 0 = []" "chunks_CONFIDENCE E k 0 = []"
  by (simp_all add: chunk_requests_def chunks_MESSAGE_def chunks_CONFIDENCE_def)

lemma length_chunks:
  "length (chunks_MESSAGE E k n) = 8 * n" "length (chunks_CONFIDENCE E k n) = 8 * n"
  by (induction n arbitrary: k) (simp_all add: chunks_0 chunks_Suc length_MESSAGE_answer length_CONFIDENCE_answer)

lemma n_step: "len < (L::nat) \<Longrightarrow> (L - len + 7) div 8 = Suc ((L - (len + 8) + 7) div 8)"
proof (cases "L - len < 8")
  case True
  assume "len < L"
  with True have "L - (len + 8) = 0" and "8 \<le> L - len + 7" and "L - len + 7 < 16" by simp_all
  then show ?thesis by simp
next
  case False
  then have "L - len + 7 = (L - (len + 8) + 7) + 8" by simp
  then show ?thesis by (simp only: div_add_self2)
qed

lemma read_header_chunks_eq:
  "read_header_chunks E self msg_len msg conf r =
     (msg @ chunks_MESSAGE E (reads r) ((msg_len - length msg + 7) div 8),
      conf @ chunks_CONFIDENCE E (reads r) ((msg_len - length msg + 7) div 8),
      r\<lparr>bus_log := bus_log r @ chunk_requests (opcode self) (length msg) ((msg_len - length msg + 7) div 8),
        reads := reads r + (msg_len - length msg + 7) div 8\<rparr>)"
proof (induction E self msg_len msg conf r rule: read_header_chunks.induct)
  case (1 E self msg_len msg conf r)
  show ?case
  proof (cases "length msg < msg_len")
    case False
    then have "(msg_len - length msg + 7) div 8 = 0" by simp
    with False show ?thesis
      by (simp add: read_header_chunks.simps [of E self msg_len msg conf r] chunks_0)
  next
    case True
    let ?st = "answer E (reads r)"
    let ?r1 = "r\<lparr>bus_log := bus_log r @ status_request (opcode self) False False (length msg),
                  reads := Suc (reads r)\<rparr>"
    from True have n: "(msg_len - length msg + 7) div 8
                       = Suc ((msg_len - (length msg + 8) + 7) div 8)"
      by (rule n_step)
    have IH: "read_header_chunks E self msg_len (msg @ MESSAGE ?st) (conf @ CONFIDENCE ?st) ?r1
        = ((msg @ MESSAGE ?st) @ chunks_MESSAGE E (reads ?r1) ((msg_len - length (msg @ MESSAGE ?st) + 7) div 8),
           (conf @ CONFIDENCE ?st) @ chunks_CONFIDENCE E (reads ?r1) ((msg_len - length (msg @ MESSAGE ?st) + 7) div 8),
           ?r1\<lparr>bus_log := bus_log ?r1 @ chunk_requests (opcode self) (length (msg @ MESSAGE ?st))
                                 ((msg_len - length (msg @ MESSAGE ?st) + 7) div 8),
               reads := reads ?r1 + (msg_len - length (msg @ MESSAGE ?st) + 7) div 8\<rparr>)"
      by (rule "1.IH" [OF True]) (simp_all add: get_status_eq)
    have "read_header_chunks E self msg_len msg conf r
          = read_header_chunks E self msg_len (msg @ MESSAGE ?st) (conf @ CONFIDENCE ?st) ?r1"
      using True by (simp add: read_header_chunks.simps [of E self msg_len msg conf r] get_status_eq)
    also note IH
    finally show ?thesis
      by (simp add: n chunks_Suc length_MESSAGE_answer)
  qed
qed

subsection \<open>The dispatch block and the branches of a poll\<close>

lemma dispatch_off: "\<not> dispatch_message self \<Longrightarrow> dispatch E self r = r"
  by (simp add: dispatch_def)

lemma dispatch_empty:
  "dispatch_message self \<Longrightarrow> same_messages r = [] \<Longrightarrow> dispatch E self r = r\<lparr>same_timeout := Never\<rparr>"
  by (simp add: dispatch_def)

lemma dispatch_nonempty:
  "dispatch_message self \<Longrightarrow> same_messages r \<noteq> [] \<Longrightarrow>
   dispatch E self r =
     r\<lparr>same_timeout := Never,
       decode_calls := decode_calls r @ [same_messages r],
       same_messages := [],
       fired := fired r @
         [if SAMEMessage_ok E (average_message E (same_messages r))
          then SAMEMessageReceivedEvent (average_message E (same_messages r))
          else InvalidSAMEMessageReceivedEvent (same_messages r)]\<rparr>"
  by (simp add: dispatch_def Let_def fire_event_def)

lemma dispatch_keeps:
  "bus_log (dispatch E self r) = bus_log r"
  "reads (dispatch E self r) = reads r"
  "ticks (dispatch E self r) = ticks r"
  "last_EOM (dispatch E self r) = last_EOM r"
  "radio_power (dispatch E self r) = radio_power r"
  by (simp_all add: dispatch_def Let_def fire_event_def)

lemma do_command0_eq:
  "SameInterruptCheck_do_command0 E self r =
     (Inr PyNone, self\<lparr>status := Some (answer E (reads r))\<rparr>,
      if intack self then
        if EOMDET (answer E (reads r)) then
          if clock E (ticks r) - last_EOM r > 5
          then (polled E self r)\<lparr>same_timeout := At 0, ticks := Suc (Suc (ticks r)),
                 last_EOM := clock E (Suc (ticks r)),
                 fired := fired (dispatch E self r) @ [EndOfMessage]\<rparr>
          else (polled E self r)\<lparr>same_timeout := At 0, ticks := Suc (ticks r)\<rparr>
        else if PREDET (answer E (reads r)) then
          (polled E self r)\<lparr>ticks := Suc (ticks r), same_timeout := At (clock E (ticks r) + 6)\<rparr>
        else if HDRRDY (answer E (reads r)) then
          (polled E self r)
            \<lparr>bus_log := bus_log r @ status_request (opcode self) (clearbuf self) True 0
                 @ chunk_requests (opcode self) 8 (extra_reads E (reads r))
                 @ status_request (opcode self) True False 0,
             reads := reads r + extra_reads E (reads r) + 2,
             same_messages := same_messages (dispatch E self r) @
                [(map (\<lambda>c. char_of (unat c))
                    (take (MSGLEN (answer E (reads r)) + 1) (assembled_MESSAGE E (reads r))),
                  take (MSGLEN (answer E (reads r)) + 1) (assembled_CONFIDENCE E (reads r)))],
             fired := fired (dispatch E self r) @
                [SAMEHeaderReceived (same_messages (dispatch E self r) @
                  [(map (\<lambda>c. char_of (unat c))
                      (take (MSGLEN (answer E (reads r)) + 1) (assembled_MESSAGE E (reads r))),
                    take (MSGLEN (answer E (reads r)) + 1) (assembled_CONFIDENCE E (reads r)))])],
             ticks := Suc (ticks r),
             same_timeout := At (clock E (ticks r) + 6)\<rparr>
        else polled E self r
      else polled E self r)"
  by (simp add: SameInterruptCheck_do_command0_def get_status_eq read_header_chunks_eq
      time_time_def fire_event_def Let_def polled_def dispatch_keeps length_MESSAGE_answer
      extra_reads_def assembled_MESSAGE_def assembled_CONFIDENCE_def)

lemma polled_keeps:
  "same_messages (polled E self r) = same_messages (dispatch E self r)"
  "same_timeout (polled E self r) = same_timeout (dispatch E self r)"
  "fired (polled E self r) = fired (dispatch E self r)"
  "decode_calls (polled E self r) = decode_calls (dispatch E self r)"
  "last_EOM (polled E self r) = last_EOM r"
  "ticks (polled E self r) = ticks r"
  "reads (polled E self r) = Suc (reads r)"
  by (simp_all add: polled_def dispatch_keeps)

lemma dispatch_fired_cases:
  "fired (dispatch E self r) = fired r
   \<or> (\<exists>m. fired (dispatch E self r) = fired r @ [SAMEMessageReceivedEvent m])
   \<or> (\<exists>ms. fired (dispatch E self r) = fired r @ [InvalidSAMEMessageReceivedEvent ms])"
  by (simp add: dispatch_def Let_def fire_event_def)

lemma dispatch_same_messages_cases:
  "same_messages (dispatch E self r) = same_messages r \<or> same_messages (dispatch E self r) = []"
  by (simp add: dispatch_def Let_def fire_event_def)

subsection \<open>A poll without interrupt acknowledge\<close>

text \<open>
  C10. A \<^verbatim>\<open>SameInterruptCheck\<close> with \<^verbatim>\<open>intack\<close> false does nothing with the decoded flags,
  whatever they are: after the dispatch block the only change to the controller is the
  one status request on the bus. The reception buffer gets no entry, the deadline and the
  last end-of-message time stay as the dispatch block left them, and no end-of-message or
  header-received event is fired; without \<^verbatim>\<open>dispatch_message\<close> the buffer, the deadline
  and the events are those from before the poll.
\<close>
theorem no_intack_no_flag_processing:
  assumes "\<not> intack self"
  shows "(let r0 = dispatch E self r;
              r' = snd (snd (SameInterruptCheck_do_command0 E self r))
          in r' = r0\<lparr>bus_log := bus_log r @ status_request (opcode self) (clearbuf self) False 0,
                     reads := Suc (reads r)\<rparr>
           \<and> same_messages r' = same_messages r0
           \<and> length (same_messages r') \<le> length (same_messages r)
           \<and> same_timeout r' = same_timeout r0
           \<and> last_EOM r' = last_EOM r
           \<and> fired r' = fired r0
           \<and> EndOfMessage \<notin> set (drop (length (fired r)) (fired r'))
           \<and> (\<forall>ms. SAMEHeaderReceived ms \<notin> set (drop (length (fired r)) (fired r')))
           \<and> (\<not> dispatch_message self \<longrightarrow>
                 same_messages r' = same_messages r \<and> same_timeout r' = same_timeout r
               \<and> fired r' = fired r))"
proof -
  let ?r0 = "dispatch E self r"
  have r': "snd (snd (SameInterruptCheck_do_command0 E self r)) = polled E self r"
    using assms by (simp add: do_command0_eq)
  have a: "EndOfMessage \<notin> set (drop (length (fired r)) (fired ?r0))"
    and b: "\<forall>ms. SAMEHeaderReceived ms \<notin> set (drop (length (fired r)) (fired ?r0))"
    using dispatch_fired_cases [of E self r] by auto
  have c: "length (same_messages ?r0) \<le> length (same_messages r)"
    using dispatch_same_messages_cases [of E self r] by auto
  show ?thesis
    unfolding Let_def r'
    using assms a b c
    by (simp add: polled_keeps dispatch_off) (simp add: polled_def)
qed

subsection \<open>Dispatch\<close>

text \<open>
  C2. A \<^verbatim>\<open>SameInterruptCheck\<close> with \<^verbatim>\<open>dispatch_message\<close> true sets the deadline to
  infinity; when the reception buffer is not empty, the decoder is called once, with all the
  receptions of the buffer, the buffer is emptied, and either the decoded-message event or,
  when the decoded message is malformed, the malformed-message event with the raw
  receptions is fired; when the buffer is empty the decoder is not called. The execution
  raises nothing and calls the decoder nowhere else. When the poll acts on no flag (no
  \<^verbatim>\<open>intack\<close>, or none of the three flags set) this is also the state at its end.
\<close>
theorem dispatch_decodes_once:
  assumes "dispatch_message self"
  shows "(let r0 = dispatch E self r;
              r' = snd (snd (SameInterruptCheck_do_command0 E self r));
              st = answer E (reads r)
          in same_timeout r0 = Never
           \<and> (same_messages r \<noteq> [] \<longrightarrow>
                 decode_calls r0 = decode_calls r @ [same_messages r]
               \<and> same_messages r0 = []
               \<and> fired r0 = fired r @
                   [if SAMEMessage_ok E (average_message E (same_messages r))
                    then SAMEMessageReceivedEvent (average_message E (same_messages r))
                    else InvalidSAMEMessageReceivedEvent (same_messages r)])
           \<and> (same_messages r = [] \<longrightarrow>
                 decode_calls r0 = decode_calls r \<and> same_messages r0 = [] \<and> fired r0 = fired r)
           \<and> fst (SameInterruptCheck_do_command0 E self r) = Inr PyNone
           \<and> decode_calls r' = decode_calls r0
           \<and> (\<not> intack self \<or> \<not> (EOMDET st \<or> PREDET st \<or> HDRRDY st) \<longrightarrow>
                 same_timeout r' = Never \<and> same_messages r' = [] \<and> fired r' = fired r0))"
proof -
  have 1: "same_timeout (dispatch E self r) = Never"
    and 2: "same_messages (dispatch E self r) = []"
    using assms by (simp_all add: dispatch_def Let_def fire_event_def)
  have 3: "decode_calls (snd (snd (SameInterruptCheck_do_command0 E self r)))
           = decode_calls (dispatch E self r)"
    by (simp add: do_command0_eq polled_keeps)
  have 4: "same_messages r \<noteq> [] \<Longrightarrow>
           dispatch E self r = r\<lparr>same_timeout := Never,
       decode_calls := decode_calls r @ [same_messages r],
       same_messages := [],
       fired := fired r @
         [if SAMEMessage_ok E (average_message E (same_messages r))
          then SAMEMessageReceivedEvent (average_message E (same_messages r))
          else InvalidSAMEMessageReceivedEvent (same_messages r)]\<rparr>"
    using assms by (rule dispatch_nonempty)
  have 5: "same_messages r = [] \<Longrightarrow> dispatch E self r = r\<lparr>same_timeout := Never\<rparr>"
    using assms by (rule dispatch_empty)
  have 6: "\<not> intack self \<or> \<not> (EOMDET (answer E (reads r)) \<or> PREDET (answer E (reads r)) \<or> HDRRDY (answer E (reads r)))
        \<Longrightarrow> snd (snd (SameInterruptCheck_do_command0 E self r)) = polled E self r"
    by (auto simp: do_command0_eq)
  show ?thesis
    unfolding Let_def
  proof (intro conjI impI)
    show "same_timeout (dispatch E self r) = Never" by (rule 1)
    show "fst (SameInterruptCheck_do_command0 E self r) = Inr PyNone"
      by (simp add: do_command0_eq)
    show "decode_calls (snd (snd (SameInterruptCheck_do_command0 E self r)))
           = decode_calls (dispatch E self r)" by (rule 3)
  qed (simp_all add: 1 2 4 5 6 polled_keeps)
qed


theorem no_intack_no_flag_processing_witness:
  "\<not> intack (SameInterruptCheck_init False False False)
   \<and> EOMDET (answer (scripted_env [[0x80, 0x0F, 0, 5, 0xFF, 0xFF, 72, 69, 76, 76, 79, 0, 0, 0]] [10] 0) 0)
   \<and> HDRRDY (answer (scripted_env [[0x80, 0x0F, 0, 5, 0xFF, 0xFF, 72, 69, 76, 76, 79, 0, 0, 0]] [10] 0) 0)
   \<and> snd (snd (SameInterruptCheck_do_command0
                  (scripted_env [[0x80, 0x0F, 0, 5, 0xFF, 0xFF, 72, 69, 76, 76, 79, 0, 0, 0]] [10] 0)
                  (SameInterruptCheck_init False False False) (idle_radio True)))
       = (idle_radio True)\<lparr>bus_log := [WriteList 0x54 [1, 0], WaitCTS, ReadList 0 14], reads := 1\<rparr>"
proof -
  let ?E = "scripted_env [[0x80, 0x0F, 0, 5, 0xFF, 0xFF, 72, 69, 76, 76, 79, 0, 0, 0]] [10] 0"
  let ?c = "SameInterruptCheck_init False False False"
  have off: "\<not> intack ?c" by (simp add: SameInterruptCheck_init_def)
  have flags: "EOMDET (answer ?E 0)" "HDRRDY (answer ?E 0)"
    by (simp_all add: answer_def status_of_def scripted_env_def)
  have d: "dispatch ?E ?c (idle_radio True) = idle_radio True"
    by (simp add: dispatch_def SameInterruptCheck_init_def)
  have req: "status_request (opcode ?c) (clearbuf ?c) False 0
             = [WriteList 0x54 [1, 0], WaitCTS, ReadList 0 14]"
    by (simp add: status_request_def SameInterruptCheck_init_def get_status_arg_def)
  from no_intack_no_flag_processing [OF off, of ?E "idle_radio True"] off flags
  show ?thesis
    unfolding Let_def d req by (simp add: idle_radio_def)
qed

theorem dispatch_decodes_once_witness:
  "dispatch_message (SameInterruptCheck_init False False True)
   \<and> decode_calls (snd (snd (SameInterruptCheck_do_command0 (scripted_env [] [] 0)
        (SameInterruptCheck_init False False True)
        ((idle_radio True)\<lparr>same_messages := [(''WXR'', [3, 3, 3]), (''WXR'', [3, 2, 3])]\<rparr>))))
       = [[(''WXR'', [3, 3, 3]), (''WXR'', [3, 2, 3])]]
   \<and> same_messages (snd (snd (SameInterruptCheck_do_command0 (scripted_env [] [] 0)
        (SameInterruptCheck_init False False True)
        ((idle_radio True)\<lparr>same_messages := [(''WXR'', [3, 3, 3]), (''WXR'', [3, 2, 3])]\<rparr>))))
       = []
   \<and> fired (snd (snd (SameInterruptCheck_do_command0 (scripted_env [] [] 0)
        (SameInterruptCheck_init False False True)
        ((idle_radio True)\<lparr>same_messages := [(''WXR'', [3, 3, 3]), (''WXR'', [3, 2, 3])]\<rparr>))))
       = [SAMEMessageReceivedEvent ''WXR'']
   \<and> same_timeout (snd (snd (SameInterruptCheck_do_command0 (scripted_env [] [] 0)
        (SameInterruptCheck_init False False True)
        ((idle_radio True)\<lparr>same_messages := [(''WXR'', [3, 3, 3]), (''WXR'', [3, 2, 3])]\<rparr>))))
       = Never"
proof -
  let ?E = "scripted_env [] [] 0 :: string env"
  let ?c = "SameInterruptCheck_init False False True"
  let ?r = "(idle_radio True)\<lparr>same_messages := [(''WXR'', [3, 3, 3]), (''WXR'', [3, 2, 3])]\<rparr>"
  have on: "dispatch_message ?c" and noack: "\<not> intack ?c"
    by (simp_all add: SameInterruptCheck_init_def)
  have buf: "same_messages ?r = [(''WXR'', [3, 3, 3]), (''WXR'', [3, 2, 3])]"
    and calls: "decode_calls ?r = []" and ev: "fired ?r = []"
    by (simp_all add: idle_radio_def)
  have dec: "average_message ?E [(''WXR'', [3, 3, 3]), (''WXR'', [3, 2, 3])] = ''WXR''"
    "SAMEMessage_ok ?E ''WXR''"
    by (simp_all add: scripted_env_def)
  from dispatch_decodes_once [OF on, of ?E ?r] on noack
  show ?thesis
    unfolding Let_def buf calls ev by (simp add: dec)
qed

subsection \<open>End of message\<close>

lemma count_EndOfMessage_dispatch:
  "count_list (fired (dispatch E self r)) EndOfMessage = count_list (fired r) EndOfMessage"
  using dispatch_fired_cases [of E self r] by auto

lemma end_of_message_step:
  assumes "intack self" and "EOMDET (answer E (reads r))"
  shows "same_timeout (snd (snd (SameInterruptCheck_do_command0 E self r))) = At 0"
    and "clock E (ticks r) - last_EOM r > 5 \<Longrightarrow>
           count_list (fired (snd (snd (SameInterruptCheck_do_command0 E self r)))) EndOfMessage
             = Suc (count_list (fired r) EndOfMessage)
         \<and> last_EOM (snd (snd (SameInterruptCheck_do_command0 E self r))) = clock E (Suc (ticks r))"
    and "\<not> clock E (ticks r) - last_EOM r > 5 \<Longrightarrow>
           count_list (fired (snd (snd (SameInterruptCheck_do_command0 E self r)))) EndOfMessage
             = count_list (fired r) EndOfMessage
         \<and> last_EOM (snd (snd (SameInterruptCheck_do_command0 E self r))) = last_EOM r"
  using assms
  by (simp_all add: do_command0_eq polled_keeps count_EndOfMessage_dispatch)

text \<open>
  C3. Two end-of-message detections handled by polls with \<^verbatim>\<open>intack\<close>, the first of which
  fires its notification (it comes more than 5 seconds after the last one fired), the
  second handled in any later state in which the last-fired time is still that of the
  first: the first poll fires exactly one \<^verbatim>\<open>EndOfMessage\<close> and records the clock reading
  taken then; the second fires none when its clock reading is within 5 seconds of that
  time, so the pair fires exactly one, and fires a second one when it is more than 5 seconds
  after it. Both polls set the deadline to 0.
\<close>
theorem end_of_message_once_per_5_seconds:
  assumes "intack c1" and "EOMDET (answer E (reads r))"
    and "clock E (ticks r) - last_EOM r > 5"
    and "r1 = snd (snd (SameInterruptCheck_do_command0 E c1 r))"
    and "intack c2" and "EOMDET (answer E (reads ra))"
    and "last_EOM ra = last_EOM r1"
    and "r2 = snd (snd (SameInterruptCheck_do_command0 E c2 ra))"
  shows "count_list (fired r1) EndOfMessage = Suc (count_list (fired r) EndOfMessage)
       \<and> last_EOM r1 = clock E (Suc (ticks r))
       \<and> (clock E (ticks ra) - last_EOM r1 \<le> 5 \<longrightarrow>
            count_list (fired r2) EndOfMessage = count_list (fired ra) EndOfMessage)
       \<and> (clock E (ticks ra) - last_EOM r1 > 5 \<longrightarrow>
            count_list (fired r2) EndOfMessage = Suc (count_list (fired ra) EndOfMessage))
       \<and> same_timeout r1 = At 0 \<and> same_timeout r2 = At 0"
proof -
  from end_of_message_step [OF assms(1,2)] assms(3,4)
  have 1: "count_list (fired r1) EndOfMessage = Suc (count_list (fired r) EndOfMessage)"
    and 2: "last_EOM r1 = clock E (Suc (ticks r))" and 3: "same_timeout r1 = At 0"
    by simp_all
  from end_of_message_step [OF assms(5,6)] assms(7,8)
  have 4: "clock E (ticks ra) - last_EOM r1 > 5 \<Longrightarrow>
            count_list (fired r2) EndOfMessage = Suc (count_list (fired ra) EndOfMessage)"
    and 5: "\<not> clock E (ticks ra) - last_EOM r1 > 5 \<Longrightarrow>
            count_list (fired r2) EndOfMessage = count_list (fired ra) EndOfMessage"
    and 6: "same_timeout r2 = At 0"
    by simp_all
  from 1 2 3 4 5 6 show ?thesis by (simp add: not_less)
qed


theorem end_of_message_once_per_5_seconds_witness:
  "count_list (fired (snd (snd (SameInterruptCheck_do_command0
       (scripted_env [[0x80, 0x08, 0, 0, 0, 0, 0, 0, 0, 0, 0, 0, 0, 0],
                      [0x80, 0x08, 0, 0, 0, 0, 0, 0, 0, 0, 0, 0, 0, 0]] [100, 100.5, 103, 103.5] 0)
       (SameInterruptCheck_init True False False)
       (snd (snd (SameInterruptCheck_do_command0
          (scripted_env [[0x80, 0x08, 0, 0, 0, 0, 0, 0, 0, 0, 0, 0, 0, 0],
                         [0x80, 0x08, 0, 0, 0, 0, 0, 0, 0, 0, 0, 0, 0, 0]] [100, 100.5, 103, 103.5] 0)
          (SameInterruptCheck_init True False False) (idle_radio True)))))))) EndOfMessage = 1
   \<and> count_list (fired (snd (snd (SameInterruptCheck_do_command0
       (scripted_env [[0x80, 0x08, 0, 0, 0, 0, 0, 0, 0, 0, 0, 0, 0, 0],
                      [0x80, 0x08, 0, 0, 0, 0, 0, 0, 0, 0, 0, 0, 0, 0]] [100, 100.5, 106, 106.5] 0)
       (SameInterruptCheck_init True False False)
       (snd (snd (SameInterruptCheck_do_command0
          (scripted_env [[0x80, 0x08, 0, 0, 0, 0, 0, 0, 0, 0, 0, 0, 0, 0],
                         [0x80, 0x08, 0, 0, 0, 0, 0, 0, 0, 0, 0, 0, 0, 0]] [100, 100.5, 106, 106.5] 0)
          (SameInterruptCheck_init True False False) (idle_radio True)))))))) EndOfMessage = 2"
proof -
  let ?answers = "[[0x80, 0x08, 0, 0, 0, 0, 0, 0, 0, 0, 0, 0, 0, 0],
                   [0x80, 0x08, 0, 0, 0, 0, 0, 0, 0, 0, 0, 0, 0, 0]] :: byte list list"
  let ?E = "scripted_env ?answers [100, 100.5, 103, 103.5] 0"
  let ?F = "scripted_env ?answers [100, 100.5, 106, 106.5] 0"
  let ?c = "SameInterruptCheck_init True False False"
  let ?r = "idle_radio True :: string radio"
  let ?r1 = "?r\<lparr>same_timeout := At 0, last_EOM := 100.5,
                bus_log := [WriteList 0x54 [1, 0], WaitCTS, ReadList 0 14],
                reads := 1, ticks := 2, fired := [EndOfMessage]\<rparr>"
  have ack: "intack ?c" by (simp add: SameInterruptCheck_init_def)
  have eom: "EOMDET (answer ?E (reads ?r))" "EOMDET (answer ?E (reads ?r1))"
    "EOMDET (answer ?F (reads ?r))" "EOMDET (answer ?F (reads ?r1))"
    by (simp_all add: answer_def status_of_def scripted_env_def idle_radio_def)
  have first: "clock ?E (ticks ?r) - last_EOM ?r > 5" "clock ?F (ticks ?r) - last_EOM ?r > 5"
    by (simp_all add: scripted_env_def idle_radio_def)
  have r1: "?r1 = snd (snd (SameInterruptCheck_do_command0 ?E ?c ?r))"
    "?r1 = snd (snd (SameInterruptCheck_do_command0 ?F ?c ?r))"
    by (simp_all add: do_command0_eq polled_def dispatch_def SameInterruptCheck_init_def
        answer_def status_of_def scripted_env_def idle_radio_def status_request_def
        get_status_arg_def)
  have near: "clock ?E (ticks ?r1) - last_EOM ?r1 \<le> 5"
    and far: "clock ?F (ticks ?r1) - last_EOM ?r1 > 5"
    by (simp_all add: scripted_env_def idle_radio_def)
  have cnt: "count_list (fired ?r1) EndOfMessage = 1" by simp
  from end_of_message_once_per_5_seconds
         [OF ack eom(1) first(1) r1(1) ack eom(2) refl refl] near cnt
  have "count_list (fired (snd (snd (SameInterruptCheck_do_command0 ?E ?c ?r1)))) EndOfMessage = 1"
    by simp
  moreover
  from end_of_message_once_per_5_seconds
         [OF ack eom(3) first(2) r1(2) ack eom(4) refl refl] far cnt
  have "count_list (fired (snd (snd (SameInterruptCheck_do_command0 ?F ?c ?r1)))) EndOfMessage = 2"
    by simp
  ultimately show ?thesis
    unfolding r1 [symmetric] by simp
qed

subsection \<open>Header ready\<close>

lemma extra_reads_bounds:
  "MSGLEN (answer E k) \<le> 8 * Suc (extra_reads E k)"
  "extra_reads E k = 0 \<or> 8 * extra_reads E k < MSGLEN (answer E k)"
  unfolding extra_reads_def by arith+

lemma length_assembled:
  "length (assembled_MESSAGE E k) = 8 * Suc (extra_reads E k)"
  "length (assembled_CONFIDENCE E k) = 8 * Suc (extra_reads E k)"
  by (simp_all add: assembled_MESSAGE_def assembled_CONFIDENCE_def length_chunks
      length_MESSAGE_answer length_CONFIDENCE_answer)

text \<open>
  C1 (as amended). A poll with \<^verbatim>\<open>intack\<close> whose decoded status has the header-ready flag
  set and neither the end-of-message nor the preamble flag: after the first status request
  it reads further chunks at the read offsets 8, 16, ... until the assembled symbols reach
  the declared message length, and no further; it appends one reception to the buffer,
  whose first \<open>msg_len\<close> symbols and confidences are the first \<open>msg_len\<close> assembled ones;
  it sends a status request with the clear-buffer argument true; it fires a
  header-received event that carries the buffer with the new reception; and it sets the
  deadline to the clock reading plus 6.
\<close>
theorem header_ready_appends_reception:
  assumes "intack self"
    and "\<not> EOMDET (answer E (reads r))" and "\<not> PREDET (answer E (reads r))"
    and "HDRRDY (answer E (reads r))"
  shows "(let r' = snd (snd (SameInterruptCheck_do_command0 E self r));
              msg_len = MSGLEN (answer E (reads r));
              n = extra_reads E (reads r)
          in bus_log r' = bus_log r @ status_request (opcode self) (clearbuf self) True 0
                            @ chunk_requests (opcode self) 8 n
                            @ status_request (opcode self) True False 0
           \<and> reads r' = reads r + n + 2
           \<and> msg_len \<le> length (assembled_MESSAGE E (reads r))
           \<and> (n = 0 \<or> length (assembled_MESSAGE E (reads r)) - 8 < msg_len)
           \<and> (\<exists>text conf.
                 same_messages r' = same_messages (dispatch E self r) @ [(text, conf)]
               \<and> take msg_len text
                   = map (\<lambda>c. char_of (unat c)) (take msg_len (assembled_MESSAGE E (reads r)))
               \<and> take msg_len conf = take msg_len (assembled_CONFIDENCE E (reads r)))
           \<and> fired r' = fired (dispatch E self r) @ [SAMEHeaderReceived (same_messages r')]
           \<and> same_timeout r' = At (clock E (ticks r) + 6))"
proof -
  let ?L = "MSGLEN (answer E (reads r))"
  let ?text = "map (\<lambda>c. char_of (unat c)) (take (?L + 1) (assembled_MESSAGE E (reads r)))"
  let ?conf = "take (?L + 1) (assembled_CONFIDENCE E (reads r))"
  have t: "take ?L ?text = map (\<lambda>c. char_of (unat c)) (take ?L (assembled_MESSAGE E (reads r)))"
    by (simp add: take_map min_def)
  have c: "take ?L ?conf = take ?L (assembled_CONFIDENCE E (reads r))"
    by (simp add: min_def)
  from extra_reads_bounds [of E "reads r"]
  have b: "?L \<le> length (assembled_MESSAGE E (reads r))"
    "extra_reads E (reads r) = 0 \<or> length (assembled_MESSAGE E (reads r)) - 8 < ?L"
    by (simp_all add: length_assembled)
  show ?thesis
    unfolding Let_def
    using assms b t c
    by (simp add: do_command0_eq polled_keeps)
qed


lemma upt_0_14: "[0..<14] = [0, 1, 2, 3, 4, 5, 6, 7, 8, 9, 10, 11, 12, 13::nat]"
  by code_simp

text \<open>
  How long the appended reception is: the lists are cut with \<^verbatim>\<open>[0:msg_len + 1]\<close>, so
  they keep one symbol more than the declared length, unless the declared length is a
  positive multiple of 8, where the reads stop at exactly that many symbols.
\<close>
lemma header_ready_reception_length:
  assumes "intack self"
    and "\<not> EOMDET (answer E (reads r))" and "\<not> PREDET (answer E (reads r))"
    and "HDRRDY (answer E (reads r))"
  shows "\<exists>text conf.
           same_messages (snd (snd (SameInterruptCheck_do_command0 E self r)))
             = same_messages (dispatch E self r) @ [(text, conf)]
         \<and> length text = length conf
         \<and> length text = (if 0 < MSGLEN (answer E (reads r)) \<and> MSGLEN (answer E (reads r)) mod 8 = 0
                           then MSGLEN (answer E (reads r))
                           else MSGLEN (answer E (reads r)) + 1)"
proof -
  let ?L = "MSGLEN (answer E (reads r))"
  have "min (8 * Suc ((?L - 8 + 7) div 8)) (?L + 1)
        = (if 0 < ?L \<and> ?L mod 8 = 0 then ?L else ?L + 1)"
    by presburger
  then show ?thesis
    using assms
    by (simp add: do_command0_eq polled_keeps length_assembled extra_reads_def)
qed


text \<open>
  A status with both the header-ready and the end-of-message flag: the \<^verbatim>\<open>elif\<close> chain
  takes the end-of-message branch only, and nothing is appended to the buffer.
\<close>
theorem header_ready_behind_end_of_message:
  "intack (SameInterruptCheck_init True False False)
   \<and> HDRRDY (answer (scripted_env [[0x80, 0x09, 0, 5, 0xFF, 0xFF, 72, 69, 76, 76, 79, 0, 0, 0]] [100, 101] 0) 0)
   \<and> snd (snd (SameInterruptCheck_do_command0
        (scripted_env [[0x80, 0x09, 0, 5, 0xFF, 0xFF, 72, 69, 76, 76, 79, 0, 0, 0]] [100, 101] 0)
        (SameInterruptCheck_init True False False) (idle_radio True)))
     = (idle_radio True)
         \<lparr>same_timeout := At 0, last_EOM := 101,
          bus_log := [WriteList 0x54 [1, 0], WaitCTS, ReadList 0 14],
          reads := 1, ticks := 2, fired := [EndOfMessage]\<rparr>
   \<and> same_messages ((idle_radio True :: string radio)
         \<lparr>same_timeout := At 0, last_EOM := 101,
          bus_log := [WriteList 0x54 [1, 0], WaitCTS, ReadList 0 14],
          reads := 1, ticks := 2, fired := [EndOfMessage]\<rparr>) = []"
  by (simp add: do_command0_eq polled_def dispatch_def SameInterruptCheck_init_def
        answer_def status_of_def scripted_env_def idle_radio_def status_request_def
        get_status_arg_def)

theorem header_ready_appends_reception_witness:
  "(let E = scripted_env [[0x80, 0x01, 0, 10, 0xFF, 0xFF, 65, 66, 67, 68, 69, 70, 71, 72],
                          [0x80, 0x00, 0, 10, 0x55, 0x55, 73, 74, 0, 0, 0, 0, 0, 0]] [100] 0;
        r' = snd (snd (SameInterruptCheck_do_command0 E
                         (SameInterruptCheck_init True False False) (idle_radio True)))
    in HDRRDY (answer E 0)
     \<and> bus_log r' = [WriteList 0x54 [1, 0], WaitCTS, ReadList 0 14,
                      WriteList 0x54 [1, 8], WaitCTS, ReadList 0 14,
                      WriteList 0x54 [0, 0], WaitCTS, ReadList 0 14]
     \<and> reads r' = 3
     \<and> (\<exists>text conf. same_messages r' = [(text, conf)]
            \<and> take 10 text = ''ABCDEFGHIJ''
            \<and> take 10 conf = [3, 3, 3, 3, 3, 3, 3, 3, 1, 1])
     \<and> fired r' = [SAMEHeaderReceived (same_messages r')]
     \<and> same_timeout r' = At 106)"
proof -
  let ?E = "scripted_env [[0x80, 0x01, 0, 10, 0xFF, 0xFF, 65, 66, 67, 68, 69, 70, 71, 72],
                          [0x80, 0x00, 0, 10, 0x55, 0x55, 73, 74, 0, 0, 0, 0, 0, 0]] [100] 0"
  let ?c = "SameInterruptCheck_init True False False"
  let ?r = "idle_radio True :: string radio"
  have ack: "intack ?c" by (simp add: SameInterruptCheck_init_def)
  have a0: "answer ?E 0 = \<lparr>EOMDET = False, SOMDET = False, PREDET = False, HDRRDY = True,
              STATE = 0, MSGLEN = 10, CONFIDENCE = [3, 3, 3, 3, 3, 3, 3, 3],
              MESSAGE = [65, 66, 67, 68, 69, 70, 71, 72]\<rparr>"
    by (simp add: answer_def status_of_def scripted_env_def upt_0_14 decode_confidence_map
        upt_0_8 unat_field)
  have a1: "answer ?E (Suc 0) = \<lparr>EOMDET = False, SOMDET = False, PREDET = False, HDRRDY = False,
              STATE = 0, MSGLEN = 10, CONFIDENCE = [1, 1, 1, 1, 1, 1, 1, 1],
              MESSAGE = [73, 74, 0, 0, 0, 0, 0, 0]\<rparr>"
    by (simp add: answer_def status_of_def scripted_env_def upt_0_14 decode_confidence_map
        upt_0_8 unat_field)
  have rd: "reads ?r = 0" "ticks ?r = 0" "bus_log ?r = []" "dispatch ?E ?c ?r = ?r"
    "fired ?r = []" "same_messages ?r = []"
    by (simp_all add: idle_radio_def dispatch_def SameInterruptCheck_init_def)
  have n: "extra_reads ?E 0 = 1" by (simp add: extra_reads_def a0)
  have asm: "assembled_MESSAGE ?E 0 = [65, 66, 67, 68, 69, 70, 71, 72, 73, 74, 0, 0, 0, 0, 0, 0]"
    "assembled_CONFIDENCE ?E 0 = [3, 3, 3, 3, 3, 3, 3, 3, 1, 1, 1, 1, 1, 1, 1, 1]"
    by (simp_all add: assembled_MESSAGE_def assembled_CONFIDENCE_def n chunks_MESSAGE_def
        chunks_CONFIDENCE_def a0 a1)
  have req: "status_request (opcode ?c) (clearbuf ?c) True 0 @ chunk_requests (opcode ?c) 8 1
               @ status_request (opcode ?c) True False 0
             = [WriteList 0x54 [1, 0], WaitCTS, ReadList 0 14,
                WriteList 0x54 [1, 8], WaitCTS, ReadList 0 14,
                WriteList 0x54 [0, 0], WaitCTS, ReadList 0 14]"
    by (simp add: status_request_def chunk_requests_def SameInterruptCheck_init_def
        get_status_arg_def)
  have clk: "clock ?E 0 = 100" by (simp add: scripted_env_def)
  have chars: "[char_of (65::nat), char_of (66::nat), char_of (67::nat), char_of (68::nat),
                char_of (69::nat), char_of (70::nat), char_of (71::nat), char_of (72::nat),
                char_of (73::nat), char_of (74::nat)] = ''ABCDEFGHIJ''"
    by code_simp
  have flags: "\<not> EOMDET (answer ?E (reads ?r))" "\<not> PREDET (answer ?E (reads ?r))"
    "HDRRDY (answer ?E (reads ?r))"
    by (simp_all add: rd a0)
  from header_ready_appends_reception [OF ack flags]
  show ?thesis
    unfolding Let_def rd n asm a0 req clk
    by (simp add: chars)
qed

subsection \<open>Three headers and an end of message\<close>

lemma header_ready_poll:
  assumes "intack self" and "\<not> dispatch_message self"
    and "header_ready_only (answer E (reads r))"
  shows "\<exists>rec. same_messages (snd (snd (SameInterruptCheck_do_command0 E self r)))
               = same_messages r @ [rec]"
    and "decode_calls (snd (snd (SameInterruptCheck_do_command0 E self r))) = decode_calls r"
  using assms
  by (simp_all add: do_command0_eq polled_keeps dispatch_off header_ready_only_def)

lemma end_of_message_poll:
  assumes "intack self" and "\<not> dispatch_message self" and "EOMDET (answer E (reads r))"
  shows "same_messages (snd (snd (SameInterruptCheck_do_command0 E self r))) = same_messages r"
    and "decode_calls (snd (snd (SameInterruptCheck_do_command0 E self r))) = decode_calls r"
    and "same_timeout (snd (snd (SameInterruptCheck_do_command0 E self r))) = At 0"
  using assms
  by (simp_all add: do_command0_eq polled_keeps dispatch_off)

lemma dispatch_poll:
  assumes "dispatch_message self" and "same_messages r \<noteq> []"
  shows "decode_calls (snd (snd (SameInterruptCheck_do_command0 E self r)))
           = decode_calls r @ [same_messages r]"
    and "same_messages (dispatch E self r) = []"
    and "\<not> intack self \<Longrightarrow>
           same_messages (snd (snd (SameInterruptCheck_do_command0 E self r))) = []"
  using assms
  by (simp_all add: do_command0_eq polled_keeps dispatch_nonempty)

lemma three_headers_then_end_of_message:
  assumes "same_messages r = []"
    and "intack c1" "\<not> dispatch_message c1" "header_ready_only (answer E (reads r))"
    and "r1 = snd (snd (SameInterruptCheck_do_command0 E c1 r))"
    and "intack c2" "\<not> dispatch_message c2" "header_ready_only (answer E (reads r1))"
    and "r2 = snd (snd (SameInterruptCheck_do_command0 E c2 r1))"
    and "intack c3" "\<not> dispatch_message c3" "header_ready_only (answer E (reads r2))"
    and "r3 = snd (snd (SameInterruptCheck_do_command0 E c3 r2))"
    and "intack c4" "\<not> dispatch_message c4" "EOMDET (answer E (reads r3))"
    and "r4 = snd (snd (SameInterruptCheck_do_command0 E c4 r3))"
  shows "decode_calls r4 = decode_calls r \<and> length (same_messages r4) = 3
         \<and> same_timeout r4 = At 0"
proof -
  from header_ready_poll [OF assms(2-4)] assms(1,5)
  obtain a where 1: "same_messages r1 = [a]" and d1: "decode_calls r1 = decode_calls r"
    by auto
  from header_ready_poll [OF assms(6-8)] assms(9) 1 d1
  obtain b where 2: "same_messages r2 = [a, b]" and d2: "decode_calls r2 = decode_calls r"
    by auto
  from header_ready_poll [OF assms(10-12)] assms(13) 2 d2
  obtain c where 3: "same_messages r3 = [a, b, c]" and d3: "decode_calls r3 = decode_calls r"
    by auto
  from end_of_message_poll [OF assms(14-16)] assms(17) 3 d3
  show ?thesis by simp
qed

text \<open>
  C8 (as amended). From an empty reception buffer, three polls that each handle a
  header-ready status and then a poll that handles an end-of-message status, all with
  \<^verbatim>\<open>intack\<close> and without \<^verbatim>\<open>dispatch_message\<close>: the decoder has not been called, the buffer
  holds three receptions and the deadline is 0. The next \<^verbatim>\<open>SameInterruptCheck\<close> with
  \<^verbatim>\<open>dispatch_message\<close> calls the decoder once, with exactly these three receptions, and
  empties the buffer.
\<close>
theorem decode_waits_for_dispatch:
  assumes "same_messages r = []"
    and "intack c1" "\<not> dispatch_message c1" "header_ready_only (answer E (reads r))"
    and "r1 = snd (snd (SameInterruptCheck_do_command0 E c1 r))"
    and "intack c2" "\<not> dispatch_message c2" "header_ready_only (answer E (reads r1))"
    and "r2 = snd (snd (SameInterruptCheck_do_command0 E c2 r1))"
    and "intack c3" "\<not> dispatch_message c3" "header_ready_only (answer E (reads r2))"
    and "r3 = snd (snd (SameInterruptCheck_do_command0 E c3 r2))"
    and "intack c4" "\<not> dispatch_message c4" "EOMDET (answer E (reads r3))"
    and "r4 = snd (snd (SameInterruptCheck_do_command0 E c4 r3))"
    and "dispatch_message c5"
    and "r5 = snd (snd (SameInterruptCheck_do_command0 E c5 r4))"
  shows "decode_calls r4 = decode_calls r
       \<and> length (same_messages r4) = 3
       \<and> same_timeout r4 = At 0
       \<and> decode_calls r5 = decode_calls r @ [same_messages r4]
       \<and> same_messages (dispatch E c5 r4) = []
       \<and> (\<not> intack c5 \<longrightarrow> same_messages r5 = [])"
proof -
  from three_headers_then_end_of_message [OF assms(1-17)]
  have 4: "decode_calls r4 = decode_calls r" "length (same_messages r4) = 3"
    "same_timeout r4 = At 0"
    by simp_all
  then have ne: "same_messages r4 \<noteq> []" by auto
  from dispatch_poll [OF assms(18) ne, of E] assms(19) 4
  show ?thesis by simp
qed


lemma three_headers_script_run:
  fixes c :: SameInterruptCheck and r0 r1 r2 r3 :: "string radio"
  assumes "c = SameInterruptCheck_init True False False" and "r0 = idle_radio True"
    and "r1 = snd (snd (SameInterruptCheck_do_command0 three_headers_script c r0))"
    and "r2 = snd (snd (SameInterruptCheck_do_command0 three_headers_script c r1))"
    and "r3 = snd (snd (SameInterruptCheck_do_command0 three_headers_script c r2))"
  shows "intack c" "\<not> dispatch_message c" "same_messages r0 = []" "decode_calls r0 = []"
    "header_ready_only (answer three_headers_script (reads r0))"
    "header_ready_only (answer three_headers_script (reads r1))"
    "header_ready_only (answer three_headers_script (reads r2))"
    "EOMDET (answer three_headers_script (reads r3))"
proof -
  have f: "header_ready_only (answer three_headers_script 0)"
    "header_ready_only (answer three_headers_script 2)"
    "header_ready_only (answer three_headers_script 4)"
    "EOMDET (answer three_headers_script 6)"
    "extra_reads three_headers_script 0 = 0"
    "extra_reads three_headers_script 2 = 0"
    "extra_reads three_headers_script 4 = 0"
    by (simp_all add: header_ready_only_def answer_def status_of_def three_headers_script_def
        scripted_env_def extra_reads_def)
  show c: "intack c" "\<not> dispatch_message c" and r0: "same_messages r0 = []" "decode_calls r0 = []"
    by (simp_all add: assms SameInterruptCheck_init_def idle_radio_def)
  have rd0: "reads r0 = 0" by (simp add: assms idle_radio_def)
  with f show h0: "header_ready_only (answer three_headers_script (reads r0))" by simp
  from h0 c rd0 f have rd1: "reads r1 = 2"
    unfolding assms(3) by (simp add: do_command0_eq header_ready_only_def)
  with f show h1: "header_ready_only (answer three_headers_script (reads r1))" by simp
  from h1 c rd1 f have rd2: "reads r2 = 4"
    unfolding assms(4) by (simp add: do_command0_eq header_ready_only_def)
  with f show h2: "header_ready_only (answer three_headers_script (reads r2))" by simp
  from h2 c rd2 f have rd3: "reads r3 = 6"
    unfolding assms(5) by (simp add: do_command0_eq header_ready_only_def)
  with f show "EOMDET (answer three_headers_script (reads r3))" by simp
qed

text \<open>
  The four polls of the script, run from an idle radio: the fourth handles the
  end-of-message status, the decoder has not been called and the buffer holds three
  receptions.
\<close>
theorem end_of_message_poll_does_not_decode:
  "decode_calls
     (run_polls three_headers_script
        [SameInterruptCheck_init True False False, SameInterruptCheck_init True False False,
         SameInterruptCheck_init True False False, SameInterruptCheck_init True False False]
        (idle_radio True)) = []
   \<and> length (same_messages
     (run_polls three_headers_script
        [SameInterruptCheck_init True False False, SameInterruptCheck_init True False False,
         SameInterruptCheck_init True False False, SameInterruptCheck_init True False False]
        (idle_radio True))) = 3
   \<and> EOMDET (answer three_headers_script (reads
     (run_polls three_headers_script
        [SameInterruptCheck_init True False False, SameInterruptCheck_init True False False,
         SameInterruptCheck_init True False False]
        (idle_radio True))))"
proof -
  note run = three_headers_script_run [OF refl refl refl refl refl]
  from three_headers_then_end_of_message
         [OF run(3) run(1,2,5) refl run(1,2,6) refl run(1,2,7) refl run(1,2,8) refl]
       run(4,8)
  show ?thesis by (simp add: run_polls_def)
qed

theorem decode_waits_for_dispatch_witness:
  "(let c = SameInterruptCheck_init True False False;
        r4 = run_polls three_headers_script [c, c, c, c] (idle_radio True);
        r5 = run_polls three_headers_script [SameInterruptCheck_init False False True] r4
    in decode_calls r4 = [] \<and> length (same_messages r4) = 3 \<and> same_timeout r4 = At 0
     \<and> decode_calls r5 = [same_messages r4] \<and> same_messages r5 = [])"
proof -
  let ?c = "SameInterruptCheck_init True False False"
  let ?d = "SameInterruptCheck_init False False True"
  have d: "dispatch_message ?d" "\<not> intack ?d" by (simp_all add: SameInterruptCheck_init_def)
  note run = three_headers_script_run [OF refl refl refl refl refl]
  from decode_waits_for_dispatch
         [OF run(3) run(1,2,5) refl run(1,2,6) refl run(1,2,7) refl run(1,2,8) refl d(1) refl]
       run(4) d(2)
  show ?thesis unfolding Let_def by (simp add: run_polls_def)
qed

end
